theory Spec2Isabelle
  imports Main "HOL-Library.AList"
begin

section \<open>Python values\<close>

text \<open>
  A Python float is a sign, a mantissa and a binary exponent, or one of the special
  values: \<open>Finite neg m e\<close> stands for \<open>(-1)^neg * m * 2^e\<close>, so that \<open>42.5\<close> is
  \<open>Finite False 85 (-1)\<close> and \<open>-0.0\<close> is \<open>Finite True 0 0\<close>.
\<close>

datatype pyfloat = Finite bool nat int | Infinity bool | NaN

text \<open>
  What \<open>response.json()\<close> can return and what is sent as a request body. A Python
  \<open>dict\<close> keeps its keys in insertion order: an association list. \<open>None\<close> is
  \<open>JNull\<close>; a Python \<open>str\<close> (also the raw text of a response) is \<open>JStr\<close>.
\<close>

datatype json =
    JNull
  | JBool bool
  | JInt int
  | JFloat pyfloat
  | JStr string
  | JArr "json list"
  | JObj "(string \<times> json) list"

text \<open>Python's truth value of an object, as \<open>if x:\<close> and \<open>not x\<close> read it.\<close>

fun truthy :: "json \<Rightarrow> bool" where
  "truthy JNull = False"
| "truthy (JBool b) = b"
| "truthy (JInt i) = (i \<noteq> 0)"
| "truthy (JFloat (Finite neg m e)) = (m \<noteq> 0)"
| "truthy (JFloat (Infinity neg)) = True"
| "truthy (JFloat NaN) = True"
| "truthy (JStr s) = (s \<noteq> [])"
| "truthy (JArr xs) = (xs \<noteq> [])"
| "truthy (JObj kvs) = (kvs \<noteq> [])"

text \<open>\<open>if s:\<close> on an \<open>Optional[str]\<close>: neither \<open>None\<close> nor the empty string.\<close>

fun truthy_str :: "string option \<Rightarrow> bool" where
  "truthy_str None = False"
| "truthy_str (Some s) = (s \<noteq> [])"

text \<open>\<open>d.get(k, default)\<close> on a dict.\<close>

definition dict_get :: "(string \<times> json) list \<Rightarrow> string \<Rightarrow> json \<Rightarrow> json" where
  "dict_get d k dflt = (case map_of d k of None \<Rightarrow> dflt | Some v \<Rightarrow> v)"

subsection \<open>Decimal rendering\<close>

definition digit_char :: "nat \<Rightarrow> char" where
  "digit_char d = ''0123456789'' ! d"

fun str_nat :: "nat \<Rightarrow> string" where
  "str_nat n = (if n < 10 then [digit_char n] else str_nat (n div 10) @ [digit_char (n mod 10)])"

declare str_nat.simps [simp del]

text \<open>\<open>str(i)\<close> of a Python int.\<close>

definition str_int :: "int \<Rightarrow> string" where
  "str_int i = (if i < 0 then CHR ''-'' # str_nat (nat (- i)) else str_nat (nat i))"

text \<open>The digits of \<open>n\<close>, padded with zeros on the left to at least \<open>w\<close> characters.\<close>

definition zero_pad :: "nat \<Rightarrow> nat \<Rightarrow> string" where
  "zero_pad w n = replicate (w - length (str_nat n)) CHR ''0'' @ str_nat n"

definition strip_zeros :: "string \<Rightarrow> string" where
  "strip_zeros s = rev (dropWhile (\<lambda>c. c = CHR ''0'') (rev s))"

text \<open>A fraction part after removal of its trailing zeros; the point goes with them.\<close>

definition fraction_part :: "string \<Rightarrow> string" where
  "fraction_part s = (case strip_zeros s of [] \<Rightarrow> [] | c # cs \<Rightarrow> CHR ''.'' # c # cs)"

subsection \<open>The format specifier \<open>:g\<close>\<close>

text \<open>
  \<open>f"{x:g}"\<close> rounds \<open>x\<close> to six significant digits (ties to even, on the exact
  value), writes it in fixed notation when the decimal exponent \<open>X\<close> of the rounded value
  satisfies \<open>-4 \<le> X < 6\<close> and in scientific notation otherwise, and removes trailing
  zeros. The positive value is the fraction \<open>p / q\<close>.
\<close>

text \<open>\<open>10 ^ k \<le> p / q\<close>, for an integer \<open>k\<close>.\<close>

definition pow10_le :: "int \<Rightarrow> nat \<Rightarrow> nat \<Rightarrow> bool" where
  "pow10_le k p q = (if 0 \<le> k then q * 10 ^ nat k \<le> p else q \<le> p * 10 ^ nat (- k))"

text \<open>The decimal exponent: the \<open>X\<close> with \<open>10 ^ X \<le> p / q < 10 ^ (X + 1)\<close>.\<close>

definition dec_exponent :: "nat \<Rightarrow> nat \<Rightarrow> int" where
  "dec_exponent p q =
     (let k = int (length (str_nat p)) - int (length (str_nat q))
      in if pow10_le k p q then k else k - 1)"

text \<open>\<open>p / q * 10 ^ k\<close> rounded to the nearest integer, ties to even.\<close>

definition round_scaled :: "nat \<Rightarrow> nat \<Rightarrow> int \<Rightarrow> nat" where
  "round_scaled p q k =
     (let n = (if 0 \<le> k then p * 10 ^ nat k else p);
          d = (if 0 \<le> k then q else q * 10 ^ nat (- k));
          quo = n div d;
          r = n mod d
      in if d < 2 * r \<or> (2 * r = d \<and> odd quo) then quo + 1 else quo)"

definition format_exponent :: "int \<Rightarrow> string" where
  "format_exponent x =
     CHR ''e'' # (if x < 0 then CHR ''-'' else CHR ''+'') # zero_pad 2 (nat \<bar>x\<bar>)"

definition format_g_pos :: "nat \<Rightarrow> nat \<Rightarrow> string" where
  "format_g_pos p q =
     (let x0 = dec_exponent p q;
          n0 = round_scaled p q (5 - x0);
          n = (if n0 = 1000000 then 100000 else n0);
          x = (if n0 = 1000000 then x0 + 1 else x0)
      in if - 4 \<le> x \<and> x < 6
         then (let scale = 10 ^ nat (5 - x)
               in str_nat (n div scale) @ fraction_part (zero_pad (nat (5 - x)) (n mod scale)))
         else str_nat (n div 100000) @ fraction_part (zero_pad 5 (n mod 100000))
              @ format_exponent x)"

fun format_g :: "pyfloat \<Rightarrow> string" where
  "format_g NaN = ''nan''"
| "format_g (Infinity neg) = (if neg then ''-inf'' else ''inf'')"
| "format_g (Finite neg m e) =
     (if neg then ''-'' else '''') @
     (if m = 0 then ''0''
      else if 0 \<le> e then format_g_pos (m * 2 ^ nat e) 1
      else format_g_pos m (2 ^ nat (- e)))"

text \<open>\<open>str(x)\<close> and \<open>f"{x}"\<close> of an \<open>Optional[str]\<close>.\<close>

fun str_opt :: "string option \<Rightarrow> string" where
  "str_opt None = ''None''"
| "str_opt (Some s) = s"

text \<open>
  \<open>json.dumps\<close>, and \<open>str\<close> of a float, a list or a dict, are parameters of the
  model: their output is carried through and never inspected by the code.
\<close>

record builtins =
  json_dumps :: "json \<Rightarrow> string"
  str_other :: "json \<Rightarrow> string"

text \<open>\<open>str(x)\<close> and \<open>f"{x}"\<close> of a decoded JSON value.\<close>

fun py_str :: "builtins \<Rightarrow> json \<Rightarrow> string" where
  "py_str py JNull = ''None''"
| "py_str py (JBool b) = (if b then ''True'' else ''False'')"
| "py_str py (JInt i) = str_int i"
| "py_str py (JStr s) = s"
| "py_str py v = str_other py v"

section \<open>Errors (\<open>utils/error_handler.py\<close>)\<close>

text \<open>
  \<open>ApiError status message details\<close> and \<open>ValidationError\<close> are the two classes of
  the repository. \<open>HTTPError\<close> is \<open>httpx.HTTPError\<close> with its subclasses and
  \<open>TimeoutError\<close> is \<open>asyncio.TimeoutError\<close>; the remaining constructors are the
  Python exceptions that the code can run into, \<open>OtherError\<close> any other subclass of
  \<open>Exception\<close>. Apart from \<open>ApiError\<close>, each carries the text that \<open>str(e)\<close> returns.
\<close>

datatype exn =
    ApiError int string json
  | ValidationError string
  | HTTPError string
  | TimeoutError string
  | AttributeError string
  | KeyError string
  | TypeError string
  | IndexError string
  | OtherError string

text \<open>The name of the Python type of a decoded JSON value, as error messages print it.\<close>

fun type_name :: "json \<Rightarrow> string" where
  "type_name JNull = ''NoneType''"
| "type_name (JBool b) = ''bool''"
| "type_name (JInt i) = ''int''"
| "type_name (JFloat f) = ''float''"
| "type_name (JStr s) = ''str''"
| "type_name (JArr xs) = ''list''"
| "type_name (JObj d) = ''dict''"

text \<open>What \<open>v.get\<close> raises on a value that is not a dict.\<close>

definition no_attribute :: "json \<Rightarrow> string \<Rightarrow> exn" where
  "no_attribute v a =
     AttributeError ([CHR 0x27] @ type_name v @ [CHR 0x27] @ '' object has no attribute ''
                     @ [CHR 0x27] @ a @ [CHR 0x27])"


definition require :: "bool \<Rightarrow> string \<Rightarrow> exn + unit" where
  "require condition msg = (if \<not> condition then Inl (ValidationError msg) else Inr ())"

section \<open>The transport (\<open>utils/api_client.py\<close>)\<close>

record request =
  http_method :: string
  url :: string
  headers :: "(string \<times> string) list"
  params :: "(string \<times> json) list option"
  json_body :: "json option"

text \<open>
  What the code reads of an \<open>httpx\<close> response: the status code, the value of
  \<open>headers.get("Content-Type", "")\<close>, the text, and the result of \<open>response.json()\<close>,
  which is \<open>None\<close> where it raises \<open>ValueError\<close>.
\<close>

record response =
  status_code :: int
  content_type :: string
  body_text :: string
  json_value :: "json option"

text \<open>One call of \<open>client.request\<close> answers or raises.\<close>

datatype attempt = Responded response | Raised exn

datatype level = INFO | WARNING | ERROR

text \<open>The arguments of one call of \<open>aiosmtplib.send\<close>.\<close>

record smtp_call =
  message :: string
  hostname :: "string option"
  port :: int
  start_tls :: bool
  username :: "string option"
  password :: "string option"
  sender :: string
  recipients :: "string list"

text \<open>What a run leaves behind: the requests handed to the HTTP client, the log records and
  the mails handed to the SMTP library.\<close>

datatype event = Sent string request | Logged level string | Mailed smtp_call

record 'w state =
  world :: 'w
  trace :: "event list"

text \<open>
  The remote end is a parameter: \<open>transport\<close> maps a request and the state of the world
  to the outcome of the call and the next state of the world.
\<close>

record 'w client =
  base_url :: string
  default_headers :: "(string \<times> string) list"
  transport :: "request \<Rightarrow> 'w \<Rightarrow> attempt \<times> 'w"

definition logger :: "level \<Rightarrow> string \<Rightarrow> 'w state \<Rightarrow> 'w state" where
  "logger lv msg s = s\<lparr>trace := trace s @ [Logged lv msg]\<rparr>"

definition merge_headers ::
  "'w client \<Rightarrow> (string \<times> string) list option \<Rightarrow> (string \<times> string) list" where
  "merge_headers c hs =
     (case hs of
        None \<Rightarrow> default_headers c
      | Some h \<Rightarrow> fold (\<lambda>(k, v). AList.update k v) h (default_headers c))"

text \<open>\<open>s.upper()\<close>, on ASCII letters.\<close>

definition upper_char :: "char \<Rightarrow> char" where
  "upper_char c =
     (case map_of (zip ''abcdefghijklmnopqrstuvwxyz'' ''ABCDEFGHIJKLMNOPQRSTUVWXYZ'') c of
        None \<Rightarrow> c
      | Some u \<Rightarrow> u)"

definition upper :: "string \<Rightarrow> string" where
  "upper s = map upper_char s"

fun startswith_slash :: "string \<Rightarrow> bool" where
  "startswith_slash [] = False"
| "startswith_slash (c # cs) = (c = CHR ''/'')"

text \<open>\<open>needle in haystack\<close> on strings.\<close>

fun contains :: "string \<Rightarrow> string \<Rightarrow> bool" where
  "contains needle [] = (needle = [])"
| "contains needle (c # cs) = (take (length needle) (c # cs) = needle \<or> contains needle cs)"

text \<open>The body of a response as \<open>request\<close> decodes it.\<close>

definition decode_body :: "response \<Rightarrow> json" where
  "decode_body r =
     (if contains ''application/json'' (content_type r)
      then (case json_value r of Some v \<Rightarrow> v | None \<Rightarrow> JStr (body_text r))
      else JStr (body_text r))"

text \<open>
  \<open>isinstance(exc, (httpx.HTTPError, asyncio.TimeoutError))\<close>: the test of the
  \<open>except\<close> clause in \<open>request\<close> and of \<open>retry_if_exception_type\<close>.
\<close>

fun retry_if_exception_type :: "exn \<Rightarrow> bool" where
  "retry_if_exception_type (HTTPError m) = True"
| "retry_if_exception_type (TimeoutError m) = True"
| "retry_if_exception_type e = False"

text \<open>The request that \<open>request\<close> hands to the HTTP client.\<close>

definition build_request ::
  "'w client \<Rightarrow> string \<Rightarrow> string \<Rightarrow> (string \<times> string) list option \<Rightarrow>
   (string \<times> json) list option \<Rightarrow> json option \<Rightarrow> request" where
  "build_request c method path hs ps js =
     (let merged_headers = merge_headers c hs;
          u = (if startswith_slash path then path else ''/'' @ path)
      in \<lparr>http_method = upper method, url = u, headers = merged_headers,
          params = ps, json_body = js\<rparr>)"

text \<open>The body of \<open>AsyncApiClient.request\<close>: one attempt.\<close>

definition request_once ::
  "'w client \<Rightarrow> string \<Rightarrow> string \<Rightarrow> (string \<times> string) list option \<Rightarrow>
   (string \<times> json) list option \<Rightarrow> json option \<Rightarrow> 'w state \<Rightarrow> (exn + json) \<times> 'w state" where
  "request_once c method path hs ps js s =
     (let rq = build_request c method path hs ps js;
          (a, w') = transport c rq (world s);
          s1 = s\<lparr>world := w', trace := trace s @ [Sent (base_url c) rq]\<rparr>
      in case a of
           Raised exc \<Rightarrow>
             if retry_if_exception_type exc
             then (Inl exc, logger WARNING ''Transient HTTP exception, will retry if attempts remain'' s1)
             else (Inl exc, s1)
         | Responded r \<Rightarrow>
             let body = decode_body r
             in if 200 \<le> status_code r \<and> status_code r < 300 then (Inr body, s1)
                else (Inl (ApiError (status_code r) ''HTTP request failed'' body),
                      logger ERROR ''HTTP error'' s1))"

text \<open>
  The decorator \<open>@retry(reraise=True, stop=stop_after_attempt(3), wait=...,
  retry=retry_if_exception_type(...))\<close>: an attempt that returns ends the loop; one that
  raises is repeated when the exception is of a retried type and the stop condition does
  not hold, and re-raised otherwise. The waits between attempts only delay the call and
  are left out.
\<close>

definition stop_after_attempt :: "nat \<Rightarrow> nat \<Rightarrow> bool" where
  "stop_after_attempt max_attempt_number attempt_number = (max_attempt_number \<le> attempt_number)"

function retrying ::
  "nat \<Rightarrow> ('s \<Rightarrow> (exn + 'a) \<times> 's) \<Rightarrow> 's \<Rightarrow> (exn + 'a) \<times> 's" where
  "retrying attempt_number f s =
     (case f s of
        (Inr v, s') \<Rightarrow> (Inr v, s')
      | (Inl e, s') \<Rightarrow>
          if \<not> retry_if_exception_type e then (Inl e, s')
          else if stop_after_attempt 3 attempt_number then (Inl e, s')
          else retrying (attempt_number + 1) f s')"
  by pat_completeness auto
termination
  by (relation "measure (\<lambda>(n, f, s). 3 - n)") (auto simp: stop_after_attempt_def)

declare retrying.simps [simp del]

definition request ::
  "'w client \<Rightarrow> string \<Rightarrow> string \<Rightarrow> (string \<times> string) list option \<Rightarrow>
   (string \<times> json) list option \<Rightarrow> json option \<Rightarrow> 'w state \<Rightarrow> (exn + json) \<times> 'w state" where
  "request c method path hs ps js = retrying 1 (request_once c method path hs ps js)"

definition post :: "'w client \<Rightarrow> string \<Rightarrow> json option \<Rightarrow> 'w state \<Rightarrow> (exn + json) \<times> 'w state" where
  "post c path js = request c ''POST'' path None None js"

definition patch :: "'w client \<Rightarrow> string \<Rightarrow> json option \<Rightarrow> 'w state \<Rightarrow> (exn + json) \<times> 'w state" where
  "patch c path js = request c ''PATCH'' path None None js"

definition put :: "'w client \<Rightarrow> string \<Rightarrow> json option \<Rightarrow> 'w state \<Rightarrow> (exn + json) \<times> 'w state" where
  "put c path js = request c ''PUT'' path None None js"

section \<open>The CRM record service (\<open>agents/hubspot_agent.py\<close>)\<close>

text \<open>
  \<open>CreateContactInput\<close> and \<open>UpdateContactInput\<close> have the same fields.
  \<open>CreateDealInput\<close> and \<open>UpdateDealInput\<close> share four of theirs. An \<open>EmailStr\<close>
  is a string.
\<close>

record contact_input =
  email :: string
  first_name :: "string option"
  last_name :: "string option"
  phone :: "string option"

type_synonym create_contact_input = contact_input
type_synonym update_contact_input = contact_input

record deal_fields =
  name :: "string option"
  amount :: "pyfloat option"
  stage :: "string option"
  pipeline :: "string option"

record create_deal_input = deal_fields +
  associated_contact_email :: "string option"

record update_deal_input = deal_fields +
  deal_id :: string

text \<open>\<open>if x: properties[k] = x\<close> and \<open>if x is not None: properties[k] = x\<close>.\<close>

fun set_if_truthy ::
  "string \<Rightarrow> string option \<Rightarrow> (string \<times> json) list \<Rightarrow> (string \<times> json) list" where
  "set_if_truthy k None properties = properties"
| "set_if_truthy k (Some v) properties =
     (if v \<noteq> [] then AList.update k (JStr v) properties else properties)"

fun set_if_not_none ::
  "string \<Rightarrow> json option \<Rightarrow> (string \<times> json) list \<Rightarrow> (string \<times> json) list" where
  "set_if_not_none k None properties = properties"
| "set_if_not_none k (Some v) properties = AList.update k v properties"

text \<open>\<open>results[0]\<close> on a decoded JSON value.\<close>

fun subscript0 :: "json \<Rightarrow> exn + json" where
  "subscript0 (JArr (x # xs)) = Inr x"
| "subscript0 (JArr []) = Inl (IndexError ''list index out of range'')"
| "subscript0 (JStr (c # cs)) = Inr (JStr [c])"
| "subscript0 (JStr []) = Inl (IndexError ''string index out of range'')"
| "subscript0 (JObj kvs) = Inl (KeyError ''0'')"
| "subscript0 v =
     Inl (TypeError ([CHR 0x27] @ type_name v @ [CHR 0x27] @ '' object is not subscriptable''))"

definition search_query :: "string \<Rightarrow> json" where
  "search_query e =
     JObj [(''filterGroups'',
              JArr [JObj [(''filters'',
                 JArr [JObj [(''propertyName'', JStr ''email''), (''operator'', JStr ''EQ''),
                             (''value'', JStr e)]])]]),
           (''properties'', JArr [JStr ''email'', JStr ''firstname'', JStr ''lastname'', JStr ''phone'']),
           (''limit'', JInt 1)]"

text \<open>\<open>_get_contact_by_email\<close>; the result \<open>None\<close> is \<open>JNull\<close>.\<close>

definition get_contact_by_email ::
  "'w client \<Rightarrow> string \<Rightarrow> 'w state \<Rightarrow> (exn + json) \<times> 'w state" where
  "get_contact_by_email c e s =
     (case post c ''/crm/v3/objects/contacts/search'' (Some (search_query e)) s of
        (Inl err, s1) \<Rightarrow> (Inl err, s1)
      | (Inr res, s1) \<Rightarrow>
          (case res of
             JObj d \<Rightarrow>
               (let results = dict_get d ''results'' (JArr [])
                in if \<not> truthy results then (Inr JNull, s1) else (subscript0 results, s1))
           | _ \<Rightarrow> (Inr JNull, s1)))"

text \<open>\<open>_find_contact_id_by_email\<close>.\<close>

definition find_contact_id_by_email ::
  "'w client \<Rightarrow> string \<Rightarrow> 'w state \<Rightarrow> (exn + json) \<times> 'w state" where
  "find_contact_id_by_email c e s =
     (case get_contact_by_email c e s of
        (Inl err, s1) \<Rightarrow> (Inl err, s1)
      | (Inr contact, s1) \<Rightarrow>
          if \<not> truthy contact then (Inr JNull, s1)
          else (case contact of
                  JObj d \<Rightarrow> (Inr (dict_get d ''id'' JNull), s1)
                | _ \<Rightarrow> (Inl (no_attribute contact ''get''), s1)))"

definition contact_properties :: "create_contact_input \<Rightarrow> (string \<times> json) list" where
  "contact_properties payload =
     set_if_truthy ''phone'' (phone payload)
       (set_if_truthy ''lastname'' (last_name payload)
          (set_if_truthy ''firstname'' (first_name payload)
             [(''email'', JStr (email payload))]))"

definition create_contact ::
  "'w client \<Rightarrow> create_contact_input \<Rightarrow> 'w state \<Rightarrow> (exn + json) \<times> 'w state" where
  "create_contact c payload s =
     (case post c ''/crm/v3/objects/contacts''
             (Some (JObj [(''properties'', JObj (contact_properties payload))])) s of
        (Inl err, s1) \<Rightarrow>
          (case err of
             ApiError status msg details \<Rightarrow>
               if status = 409 then
                 (case get_contact_by_email c (email payload) s1 of
                    (Inl err2, s2) \<Rightarrow> (Inl err2, s2)
                  | (Inr existing, s2) \<Rightarrow>
                      if truthy existing then
                        (case existing of
                           JObj d \<Rightarrow>
                             (Inr (JObj [(''id'', dict_get d ''id'' JNull),
                                         (''properties'', dict_get d ''properties'' (JObj [])),
                                         (''status'', JStr ''existing'')]),
                              logger INFO ''Contact already existed'' s2)
                         | _ \<Rightarrow> (Inl (no_attribute existing ''get''), s2))
                      else (Inl err,
                            logger WARNING
                              ''Contact conflict reported but existing record not found'' s2))
               else (Inl err, s1)
           | _ \<Rightarrow> (Inl err, s1))
      | (Inr res, s1) \<Rightarrow> (Inr res, logger INFO ''New contact created'' s1))"

definition contact_patch :: "update_contact_input \<Rightarrow> (string \<times> json) list" where
  "contact_patch payload =
     set_if_not_none ''phone'' (map_option JStr (phone payload))
       (set_if_not_none ''lastname'' (map_option JStr (last_name payload))
          (set_if_not_none ''firstname'' (map_option JStr (first_name payload)) []))"

definition update_contact ::
  "builtins \<Rightarrow> 'w client \<Rightarrow> update_contact_input \<Rightarrow> 'w state \<Rightarrow> (exn + json) \<times> 'w state" where
  "update_contact py c payload s =
     (case find_contact_id_by_email c (email payload) s of
        (Inl err, s1) \<Rightarrow> (Inl err, s1)
      | (Inr contact_id, s1) \<Rightarrow>
          (case require (contact_id \<noteq> JNull) (''Contact not found for email '' @ email payload) of
             Inl err \<Rightarrow> (Inl err, s1)
           | Inr _ \<Rightarrow>
               patch c (''/crm/v3/objects/contacts/'' @ py_str py contact_id)
                 (Some (JObj [(''properties'', JObj (contact_patch payload))])) s1))"

text \<open>The name of the deal, lines 131 to 138 of \<open>create_deal\<close>.\<close>

definition deal_name :: "create_deal_input \<Rightarrow> string" where
  "deal_name payload =
     (if \<not> truthy_str (name payload) then
        (if truthy_str (associated_contact_email payload)
         then ''Deal for '' @ str_opt (associated_contact_email payload)
         else (case amount payload of
                 Some a \<Rightarrow> ''Deal '' @ format_g a
               | None \<Rightarrow> ''Untitled Deal''))
      else str_opt (name payload))"

definition deal_properties :: "create_deal_input \<Rightarrow> (string \<times> json) list" where
  "deal_properties payload =
     set_if_truthy ''pipeline'' (pipeline payload)
       (set_if_truthy ''dealstage'' (stage payload)
          (set_if_not_none ''amount'' (map_option JFloat (amount payload))
             [(''dealname'', JStr (deal_name payload))]))"

definition create_deal ::
  "builtins \<Rightarrow> 'w client \<Rightarrow> create_deal_input \<Rightarrow> 'w state \<Rightarrow> (exn + json) \<times> 'w state" where
  "create_deal py c payload s =
     (case post c ''/crm/v3/objects/deals''
             (Some (JObj [(''properties'', JObj (deal_properties payload))])) s of
        (Inl err, s1) \<Rightarrow> (Inl err, s1)
      | (Inr create_resp, s1) \<Rightarrow>
          (case create_resp of
             JObj d \<Rightarrow>
               (let deal_id = dict_get d ''id'' JNull
                in if truthy_str (associated_contact_email payload) then
                     (case find_contact_id_by_email c
                             (str_opt (associated_contact_email payload)) s1 of
                        (Inl err, s2) \<Rightarrow> (Inl err, s2)
                      | (Inr contact_id, s2) \<Rightarrow>
                          (case require (contact_id \<noteq> JNull)
                                  (''Contact not found for email ''
                                     @ str_opt (associated_contact_email payload)) of
                             Inl err \<Rightarrow> (Inl err, s2)
                           | Inr _ \<Rightarrow>
                               (case put c (''/crm/v3/objects/deals/'' @ py_str py deal_id
                                              @ ''/associations/contacts/'' @ py_str py contact_id
                                              @ ''/deal_to_contact'') None s2 of
                                  (Inl err, s3) \<Rightarrow> (Inl err, s3)
                                | (Inr r, s3) \<Rightarrow> (Inr create_resp, s3))))
                   else (Inr create_resp, s1))
           | _ \<Rightarrow> (Inl (no_attribute create_resp ''get''), s1)))"

definition deal_patch :: "update_deal_input \<Rightarrow> (string \<times> json) list" where
  "deal_patch payload =
     set_if_not_none ''pipeline'' (map_option JStr (pipeline payload))
       (set_if_not_none ''dealstage'' (map_option JStr (stage payload))
          (set_if_not_none ''amount'' (map_option JFloat (amount payload))
             (set_if_not_none ''dealname'' (map_option JStr (name payload)) [])))"

definition update_deal ::
  "'w client \<Rightarrow> update_deal_input \<Rightarrow> 'w state \<Rightarrow> (exn + json) \<times> 'w state" where
  "update_deal c payload s =
     patch c (''/crm/v3/objects/deals/'' @ deal_id payload)
       (Some (JObj [(''properties'', JObj (deal_patch payload))])) s"

section \<open>The notification agent (\<open>agents/email_agent.py\<close>)\<close>









section \<open>The coordinator (\<open>agents/orchestrator_agent.py\<close>)\<close>














section \<open>Reading a trace; remote ends to run the code against\<close>

text \<open>The requests of a trace, each with the base URL of the client that sent it.\<close>

fun requests_of :: "event list \<Rightarrow> (string \<times> request) list" where
  "requests_of [] = []"
| "requests_of (Sent b rq # evs) = (b, rq) # requests_of evs"
| "requests_of (ev # evs) = requests_of evs"

fun logged :: "event list \<Rightarrow> (level \<times> string) list" where
  "logged [] = []"
| "logged (Logged lv m # evs) = (lv, m) # logged evs"
| "logged (ev # evs) = logged evs"

text \<open>A remote end that answers from a script, whatever the request.\<close>

fun scripted :: "request \<Rightarrow> attempt list \<Rightarrow> attempt \<times> attempt list" where
  "scripted rq [] = (Raised (OtherError ''no answer left''), [])"
| "scripted rq (a # as) = (a, as)"

definition json_response :: "int \<Rightarrow> json \<Rightarrow> attempt" where
  "json_response st v =
     Responded \<lparr>status_code = st, content_type = ''application/json'', body_text = [],
                json_value = Some v\<rparr>"

definition text_response :: "int \<Rightarrow> string \<Rightarrow> attempt" where
  "text_response st t =
     Responded \<lparr>status_code = st, content_type = ''text/plain'', body_text = t,
                json_value = None\<rparr>"

text \<open>A client of the scripted remote end, and the state a run starts in.\<close>

definition scripted_client :: "string \<Rightarrow> attempt list client" where
  "scripted_client b =
     \<lparr>base_url = b, default_headers = [(''Authorization'', ''Bearer token'')],
      transport = scripted\<rparr>"

definition start :: "'w \<Rightarrow> 'w state" where
  "start w = \<lparr>world = w, trace = []\<rparr>"

text \<open>
  Built-ins for the concrete runs below, in which no float, list or dict is rendered and
  the text that \<open>json.dumps\<close> returns is not looked at.
\<close>

fun plain_dumps :: "json \<Rightarrow> string" where
  "plain_dumps v = ''(json)''"

fun plain_str :: "json \<Rightarrow> string" where
  "plain_str v = ''(object)''"

definition plain_builtins :: builtins where
  "plain_builtins = \<lparr>json_dumps = plain_dumps, str_other = plain_str\<rparr>"

text \<open>
  A remote end that keeps contacts, one per email: a list of rows of email, id and
  properties. It answers a create call for an email it holds with status 409, any other
  create call with status 201 and the new record, and a search with the record of the
  email searched for, if it holds one.
\<close>

type_synonym crm = "(string \<times> string \<times> (string \<times> json) list) list"

definition contact_record :: "string \<Rightarrow> (string \<times> json) list \<Rightarrow> json" where
  "contact_record i props = JObj [(''id'', JStr i), (''properties'', JObj props)]"

text \<open>The value of the first filter of the first filter group of a search.\<close>

definition search_email :: "json option \<Rightarrow> string option" where
  "search_email body =
     (case body of
        Some (JObj q) \<Rightarrow>
          (case dict_get q ''filterGroups'' JNull of
             JArr (JObj g # gs) \<Rightarrow>
               (case dict_get g ''filters'' JNull of
                  JArr (JObj f # fs) \<Rightarrow>
                    (case dict_get f ''value'' JNull of JStr e \<Rightarrow> Some e | _ \<Rightarrow> None)
                | _ \<Rightarrow> None)
           | _ \<Rightarrow> None)
      | _ \<Rightarrow> None)"

text \<open>The properties of a create call, when they hold an email.\<close>

definition created_contact :: "json option \<Rightarrow> (string \<times> (string \<times> json) list) option" where
  "created_contact body =
     (case body of
        Some (JObj b) \<Rightarrow>
          (case dict_get b ''properties'' JNull of
             JObj props \<Rightarrow>
               (case dict_get props ''email'' JNull of JStr e \<Rightarrow> Some (e, props) | _ \<Rightarrow> None)
           | _ \<Rightarrow> None)
      | _ \<Rightarrow> None)"

definition crm_remote :: "request \<Rightarrow> crm \<Rightarrow> attempt \<times> crm" where
  "crm_remote rq w =
     (if http_method rq = ''POST'' \<and> url rq = ''/crm/v3/objects/contacts'' then
        (case created_contact (json_body rq) of
           None \<Rightarrow> (json_response 400 (JObj [(''category'', JStr ''VALIDATION_ERROR'')]), w)
         | Some (e, props) \<Rightarrow>
             (case map_of w e of
                Some row \<Rightarrow> (json_response 409 (JObj [(''category'', JStr ''CONFLICT'')]), w)
              | None \<Rightarrow>
                  (json_response 201 (contact_record (str_nat (Suc (length w))) props),
                   w @ [(e, str_nat (Suc (length w)), props)])))
      else if http_method rq = ''POST'' \<and> url rq = ''/crm/v3/objects/contacts/search'' then
        (case search_email (json_body rq) of
           None \<Rightarrow> (json_response 400 (JObj [(''category'', JStr ''VALIDATION_ERROR'')]), w)
         | Some e \<Rightarrow>
             (json_response 200
                (JObj [(''results'',
                        JArr (case map_of w e of
                                None \<Rightarrow> []
                              | Some (i, props) \<Rightarrow> [contact_record i props]))]), w))
      else (json_response 404 (JObj [(''category'', JStr ''NOT_FOUND'')]), w))"

definition crm_client :: "crm client" where
  "crm_client =
     \<lparr>base_url = ''https://api.hubapi.com'',
      default_headers = [(''Authorization'', ''Bearer token'')], transport = crm_remote\<rparr>"





section \<open>Properties\<close>

subsection \<open>Payloads\<close>

lemma map_of_set_if_truthy:
  "map_of (set_if_truthy k x ps) =
     (case x of None \<Rightarrow> map_of ps
      | Some v \<Rightarrow> if v \<noteq> [] then (map_of ps)(k \<mapsto> JStr v) else map_of ps)"
  by (cases x) (simp_all add: update_conv')

lemma map_of_set_if_not_none:
  "map_of (set_if_not_none k x ps) =
     (case x of None \<Rightarrow> map_of ps | Some v \<Rightarrow> (map_of ps)(k \<mapsto> v))"
  by (cases x) (simp_all add: update_conv')

lemma dealname_sent:
  "map_of (deal_properties payload) ''dealname'' = Some (JStr (deal_name payload))"
  by (simp add: deal_properties_def map_of_set_if_truthy map_of_set_if_not_none
      split: option.splits)

lemma format_g_42_5: "format_g (Finite False 85 (- 1)) = ''42.5''"
proof -
  have x0: "dec_exponent 85 2 = 1"
    by (simp add: dec_exponent_def pow10_le_def str_nat.simps digit_char_def)
  have n0: "round_scaled 85 2 4 = 425000"
    by (simp add: round_scaled_def)
  have i: "str_nat 42 = ''42''"
    by (simp add: str_nat.simps digit_char_def)
  have f: "fraction_part (zero_pad 4 5000) = ''.5''"
    by (simp add: fraction_part_def strip_zeros_def zero_pad_def str_nat.simps digit_char_def)
  have "format_g_pos 85 2 = ''42.5''"
    by (simp add: format_g_pos_def x0 n0 i f)
  then show ?thesis by simp
qed

subsection \<open>The default name of a deal\<close>

text \<open>
  Claim C6. When \<open>create_deal\<close> is given no name, the name of the deal is
  \<open>"Deal for {email}"\<close> if an associated contact email is given, else \<open>"Deal {amount}"\<close>
  with the amount in the format \<open>:g\<close> if an amount is given, else \<open>"Untitled Deal"\<close>;
  that name is the \<open>dealname\<close> property sent; and the amount 42.5 without an email gives
  \<open>"Deal 42.5"\<close>. An \<open>EmailStr\<close> is never the empty string.
\<close>

theorem deal_name_default_priority:
  assumes "name payload = None"
    and "associated_contact_email payload \<noteq> Some []"
  shows "deal_name payload =
           (case associated_contact_email payload of
              Some e \<Rightarrow> ''Deal for '' @ e
            | None \<Rightarrow> (case amount payload of
                          Some a \<Rightarrow> ''Deal '' @ format_g a
                        | None \<Rightarrow> ''Untitled Deal''))
         \<and> map_of (deal_properties payload) ''dealname'' = Some (JStr (deal_name payload))
         \<and> deal_name \<lparr>name = None, amount = Some (Finite False 85 (- 1)), stage = st,
                        pipeline = pl, associated_contact_email = None\<rparr> = ''Deal 42.5''"
proof (intro conjI)
  show "deal_name payload =
           (case associated_contact_email payload of
              Some e \<Rightarrow> ''Deal for '' @ e
            | None \<Rightarrow> (case amount payload of
                          Some a \<Rightarrow> ''Deal '' @ format_g a
                        | None \<Rightarrow> ''Untitled Deal''))"
    using assms by (cases "associated_contact_email payload") (simp_all add: deal_name_def)
  show "map_of (deal_properties payload) ''dealname'' = Some (JStr (deal_name payload))"
    by (rule dealname_sent)
  show "deal_name \<lparr>name = None, amount = Some (Finite False 85 (- 1)), stage = st,
                        pipeline = pl, associated_contact_email = None\<rparr> = ''Deal 42.5''"
    by (simp add: deal_name_def format_g_42_5 del: format_g.simps)
qed

theorem deal_name_default_priority_witness:
  "deal_name \<lparr>name = None, amount = Some (Finite False 7 0), stage = None, pipeline = None,
              associated_contact_email = Some ''a@b.com''\<rparr> = ''Deal for a@b.com''
   \<and> deal_name \<lparr>name = None, amount = None, stage = None, pipeline = None,
              associated_contact_email = None\<rparr> = ''Untitled Deal''"
  using deal_name_default_priority
          [of "\<lparr>name = None, amount = Some (Finite False 7 0), stage = None, pipeline = None,
               associated_contact_email = Some ''a@b.com''\<rparr>"]
        deal_name_default_priority
          [of "\<lparr>name = None, amount = None, stage = None, pipeline = None,
               associated_contact_email = None\<rparr>"]
  by simp

text \<open>
  Claim C10. A name that is the empty string is treated as no name: the deal gets the
  derived name, which is never empty, and that is the \<open>dealname\<close> property sent.
\<close>

theorem empty_name_is_absent_name:
  "deal_name (payload\<lparr>name := Some []\<rparr>) = deal_name (payload\<lparr>name := None\<rparr>)
   \<and> deal_name (payload\<lparr>name := Some []\<rparr>) \<noteq> []
   \<and> map_of (deal_properties (payload\<lparr>name := Some []\<rparr>)) ''dealname''
       = Some (JStr (deal_name (payload\<lparr>name := None\<rparr>)))"
  by (simp add: deal_name_def dealname_sent split: option.splits)

theorem empty_name_is_absent_name_witness:
  "deal_name \<lparr>name = Some [], amount = None, stage = None, pipeline = None,
              associated_contact_email = Some ''a@b.com''\<rparr> = ''Deal for a@b.com''"
  using empty_name_is_absent_name
          [of "\<lparr>name = None, amount = None, stage = None, pipeline = None,
               associated_contact_email = Some ''a@b.com''\<rparr>"]
  by (simp add: deal_name_def)

subsection \<open>The transport\<close>

lemma requests_of_append: "requests_of (xs @ ys) = requests_of xs @ requests_of ys"
  by (induction xs rule: requests_of.induct) simp_all

lemma logged_append: "logged (xs @ ys) = logged xs @ logged ys"
  by (induction xs rule: logged.induct) simp_all

lemma logger_simps:
  "world (logger lv m s) = world s"
  "trace (logger lv m s) = trace s @ [Logged lv m]"
  "requests_of (trace (logger lv m s)) = requests_of (trace s)"
  by (simp_all add: logger_def requests_of_append)

lemma retrying_stops:
  "f s = (Inl e, s') \<Longrightarrow> \<not> retry_if_exception_type e \<Longrightarrow> retrying n f s = (Inl e, s')"
  by (simp add: retrying.simps [of n f s])

lemma retrying_returns:
  "f s = (Inr v, s') \<Longrightarrow> retrying n f s = (Inr v, s')"
  by (simp add: retrying.simps [of n f s])

lemma retrying_last: "retrying 3 f s = f s"
  by (simp add: retrying.simps [of 3 f s] stop_after_attempt_def split: prod.splits sum.splits)

lemma retrying_again1:
  "f s = (Inl e, s') \<Longrightarrow> retry_if_exception_type e \<Longrightarrow> retrying 1 f s = retrying 2 f s'"
  by (subst retrying.simps) (simp add: stop_after_attempt_def numeral_2_eq_2)

lemma retrying_again2:
  "f s = (Inl e, s') \<Longrightarrow> retry_if_exception_type e \<Longrightarrow> retrying 2 f s = retrying 3 f s'"
  by (subst retrying.simps) (simp add: stop_after_attempt_def numeral_2_eq_2 numeral_3_eq_3)

lemma request_once_responded:
  assumes "transport c (build_request c m p hs ps js) (world s) = (Responded r, w')"
  shows "request_once c m p hs ps js s =
           (if 200 \<le> status_code r \<and> status_code r < 300
            then (Inr (decode_body r),
                  s\<lparr>world := w', trace := trace s @ [Sent (base_url c) (build_request c m p hs ps js)]\<rparr>)
            else (Inl (ApiError (status_code r) ''HTTP request failed'' (decode_body r)),
                  logger ERROR ''HTTP error''
                    (s\<lparr>world := w',
                       trace := trace s @ [Sent (base_url c) (build_request c m p hs ps js)]\<rparr>)))"
  using assms by (simp add: request_once_def Let_def)

lemma request_once_raised:
  assumes "transport c (build_request c m p hs ps js) (world s) = (Raised e, w')"
  shows "request_once c m p hs ps js s =
           (Inl e,
            if retry_if_exception_type e
            then logger WARNING ''Transient HTTP exception, will retry if attempts remain''
                   (s\<lparr>world := w',
                      trace := trace s @ [Sent (base_url c) (build_request c m p hs ps js)]\<rparr>)
            else s\<lparr>world := w',
                    trace := trace s @ [Sent (base_url c) (build_request c m p hs ps js)]\<rparr>)"
  using assms by (simp add: request_once_def Let_def)

lemma request_once_requests:
  "requests_of (trace (snd (request_once c m p hs ps js s))) =
     requests_of (trace s) @ [(base_url c, build_request c m p hs ps js)]"
  by (simp add: request_once_def Let_def requests_of_append logger_simps
      split: prod.splits attempt.splits)

lemma retrying_requests:
  assumes step: "\<And>t. requests_of (trace (snd (f t))) = requests_of (trace t) @ [x]"
  shows "\<exists>k. 1 \<le> k \<and> k \<le> 3 \<and>
           requests_of (trace (snd (retrying 1 f s))) = requests_of (trace s) @ replicate k x"
proof -
  obtain r1 s1 where f1: "f s = (r1, s1)" by (cases "f s")
  have t1: "requests_of (trace s1) = requests_of (trace s) @ [x]"
    using step [of s] f1 by simp
  show ?thesis
  proof (cases "\<exists>e. r1 = Inl e \<and> retry_if_exception_type e")
    case False
    then have "retrying 1 f s = (r1, s1)"
      using f1 by (cases r1) (auto simp: retrying_stops retrying_returns)
    then have "requests_of (trace (snd (retrying 1 f s))) = requests_of (trace s) @ replicate 1 x"
      using t1 by simp
    then show ?thesis by (intro exI [of _ 1]) simp
  next
    case True
    then obtain e1 where e1: "r1 = Inl e1" "retry_if_exception_type e1" by blast
    have again1: "retrying 1 f s = retrying 2 f s1"
      using retrying_again1 [of f s e1 s1] f1 e1 by simp
    obtain r2 s2 where f2: "f s1 = (r2, s2)" by (cases "f s1")
    have t2: "requests_of (trace s2) = requests_of (trace s) @ [x, x]"
      using step [of s1] f2 t1 by simp
    show ?thesis
    proof (cases "\<exists>e. r2 = Inl e \<and> retry_if_exception_type e")
      case False
      then have "retrying 2 f s1 = (r2, s2)"
        using f2 by (cases r2) (auto simp: retrying_stops retrying_returns)
      then have "retrying 1 f s = (r2, s2)"
        by (simp only: again1)
      then have "requests_of (trace (snd (retrying 1 f s))) = requests_of (trace s) @ replicate 2 x"
        using t2 by (simp add: numeral_2_eq_2)
      then show ?thesis by (intro exI [of _ 2]) simp
    next
      case True
      then obtain e2 where e2: "r2 = Inl e2" "retry_if_exception_type e2" by blast
      have again2: "retrying 2 f s1 = retrying 3 f s2"
        using retrying_again2 [of f s1 e2 s2] f2 e2 by simp
      have last: "retrying 1 f s = f s2"
        by (simp only: again1 again2 retrying_last)
      have "requests_of (trace (snd (f s2))) = requests_of (trace s) @ [x, x, x]"
        using step [of s2] t2 by simp
      then have "requests_of (trace (snd (retrying 1 f s))) = requests_of (trace s) @ replicate 3 x"
        unfolding last by (simp add: numeral_3_eq_3)
      then show ?thesis by (intro exI [of _ 3]) simp
    qed
  qed
qed

lemma request_requests:
  "\<exists>k. 1 \<le> k \<and> k \<le> 3 \<and>
        requests_of (trace (snd (request c m p hs ps js s))) =
          requests_of (trace s) @ replicate k (base_url c, build_request c m p hs ps js)"
  unfolding request_def by (rule retrying_requests) (rule request_once_requests)

lemma request_ok:
  assumes "transport c (build_request c m p hs ps js) (world s) = (Responded r, w')"
    and "200 \<le> status_code r" and "status_code r < 300"
  shows "request c m p hs ps js s =
           (Inr (decode_body r),
            s\<lparr>world := w', trace := trace s @ [Sent (base_url c) (build_request c m p hs ps js)]\<rparr>)"
  unfolding request_def
  using assms
  by (intro retrying_returns [where f = "request_once c m p hs ps js" and s = s])
     (simp add: request_once_responded)

lemma request_api_error:
  assumes "transport c (build_request c m p hs ps js) (world s) = (Responded r, w')"
    and "\<not> (200 \<le> status_code r \<and> status_code r < 300)"
  shows "request c m p hs ps js s =
           (Inl (ApiError (status_code r) ''HTTP request failed'' (decode_body r)),
            logger ERROR ''HTTP error''
              (s\<lparr>world := w',
                 trace := trace s @ [Sent (base_url c) (build_request c m p hs ps js)]\<rparr>))"
  unfolding request_def
  using assms
  by (intro retrying_stops [where f = "request_once c m p hs ps js" and s = s])
     (simp_all add: request_once_responded)

lemma build_request_fields:
  "http_method (build_request c m p hs ps js) = upper m"
  "url (build_request c m p hs ps js) = (if startswith_slash p then p else ''/'' @ p)"
  "headers (build_request c m p hs ps js) = merge_headers c hs"
  "params (build_request c m p hs ps js) = ps"
  "json_body (build_request c m p hs ps js) = js"
  by (simp_all add: build_request_def Let_def)

lemma get_contact_by_email_state:
  "snd (get_contact_by_email c e s) =
     snd (post c ''/crm/v3/objects/contacts/search'' (Some (search_query e)) s)"
  by (simp add: get_contact_by_email_def Let_def split: prod.splits sum.splits json.splits)

lemma find_contact_id_by_email_state:
  "snd (find_contact_id_by_email c e s) =
     snd (post c ''/crm/v3/objects/contacts/search'' (Some (search_query e)) s)"
proof -
  have "snd (find_contact_id_by_email c e s) = snd (get_contact_by_email c e s)"
    by (cases "get_contact_by_email c e s")
       (simp add: find_contact_id_by_email_def split: sum.splits json.splits)
  then show ?thesis by (simp only: get_contact_by_email_state)
qed

lemma update_contact_miss:
  assumes "fst (find_contact_id_by_email c (email payload) s) = Inr JNull"
  shows "update_contact b c payload s =
           (Inl (ValidationError (''Contact not found for email '' @ email payload)),
            snd (find_contact_id_by_email c (email payload) s))"
  using assms
  by (cases "find_contact_id_by_email c (email payload) s")
     (simp add: update_contact_def require_def)

lemma request_first_attempt:
  "request c m p hs ps js s =
     (case transport c (build_request c m p hs ps js) (world s) of
        (Responded r, w') \<Rightarrow>
          if 200 \<le> status_code r \<and> status_code r < 300
          then (Inr (decode_body r),
                s\<lparr>world := w',
                   trace := trace s @ [Sent (base_url c) (build_request c m p hs ps js)]\<rparr>)
          else (Inl (ApiError (status_code r) ''HTTP request failed'' (decode_body r)),
                logger ERROR ''HTTP error''
                  (s\<lparr>world := w',
                     trace := trace s @ [Sent (base_url c) (build_request c m p hs ps js)]\<rparr>))
      | (Raised e, w') \<Rightarrow>
          if retry_if_exception_type e
          then retrying 2 (request_once c m p hs ps js)
                 (logger WARNING ''Transient HTTP exception, will retry if attempts remain''
                    (s\<lparr>world := w',
                       trace := trace s @ [Sent (base_url c) (build_request c m p hs ps js)]\<rparr>))
          else (Inl e,
                s\<lparr>world := w',
                   trace := trace s @ [Sent (base_url c) (build_request c m p hs ps js)]\<rparr>))"
proof (cases "transport c (build_request c m p hs ps js) (world s)")
  case (Pair a w')
  show ?thesis
  proof (cases a)
    case (Responded r)
    with Pair show ?thesis
      by (cases "200 \<le> status_code r \<and> status_code r < 300")
         (simp_all add: request_ok request_api_error)
  next
    case (Raised e)
    with Pair have once: "request_once c m p hs ps js s =
           (Inl e,
            if retry_if_exception_type e
            then logger WARNING ''Transient HTTP exception, will retry if attempts remain''
                   (s\<lparr>world := w',
                      trace := trace s @ [Sent (base_url c) (build_request c m p hs ps js)]\<rparr>)
            else s\<lparr>world := w',
                    trace := trace s @ [Sent (base_url c) (build_request c m p hs ps js)]\<rparr>)"
      by (simp add: request_once_raised)
    show ?thesis
    proof (cases "retry_if_exception_type e")
      case True
      then show ?thesis
        using Pair Raised once
          retrying_again1 [where f = "request_once c m p hs ps js" and s = s and e = e]
        by (simp add: request_def)
    next
      case False
      then show ?thesis
        using Pair Raised once
          retrying_stops [where f = "request_once c m p hs ps js" and s = s and e = e and n = 1]
        by (simp add: request_def)
    qed
  qed
qed

lemma scripted_client_simps:
  "transport (scripted_client b) = scripted"
  "base_url (scripted_client b) = b"
  "default_headers (scripted_client b) = [(''Authorization'', ''Bearer token'')]"
  "world (start w) = w"
  "trace (start w) = []"
  by (simp_all add: scripted_client_def start_def)

lemmas run_simps =
  post_def patch_def put_def request_first_attempt scripted_client_simps
  json_response_def text_response_def decode_body_def dict_get_def logger_simps

text \<open>
  Claim C4. A response with a status code outside \<open>[200, 300)\<close> makes \<open>request\<close>
  raise \<open>ApiError\<close> with that status and the decoded body as details, at whatever
  attempt it arrives and after that single call of the HTTP client: an \<open>ApiError\<close> is
  not of a retried type.
\<close>

theorem non_2xx_is_api_error_without_retry:
  assumes "transport c (build_request c m p hs ps js) (world s) = (Responded r, w')"
    and "\<not> (200 \<le> status_code r \<and> status_code r < 300)"
  shows "retrying n (request_once c m p hs ps js) s =
           (Inl (ApiError (status_code r) ''HTTP request failed'' (decode_body r)),
            logger ERROR ''HTTP error''
              (s\<lparr>world := w',
                 trace := trace s @ [Sent (base_url c) (build_request c m p hs ps js)]\<rparr>))
         \<and> request c m p hs ps js s =
           (Inl (ApiError (status_code r) ''HTTP request failed'' (decode_body r)),
            logger ERROR ''HTTP error''
              (s\<lparr>world := w',
                 trace := trace s @ [Sent (base_url c) (build_request c m p hs ps js)]\<rparr>))
         \<and> requests_of (trace (snd (request c m p hs ps js s))) =
             requests_of (trace s) @ [(base_url c, build_request c m p hs ps js)]
         \<and> \<not> retry_if_exception_type (ApiError st msg d)"
proof -
  have once: "request_once c m p hs ps js s =
           (Inl (ApiError (status_code r) ''HTTP request failed'' (decode_body r)),
            logger ERROR ''HTTP error''
              (s\<lparr>world := w',
                 trace := trace s @ [Sent (base_url c) (build_request c m p hs ps js)]\<rparr>))"
    using assms by (simp add: request_once_responded)
  have any: "retrying k (request_once c m p hs ps js) s =
           (Inl (ApiError (status_code r) ''HTTP request failed'' (decode_body r)),
            logger ERROR ''HTTP error''
              (s\<lparr>world := w',
                 trace := trace s @ [Sent (base_url c) (build_request c m p hs ps js)]\<rparr>))" for k
    using once by (intro retrying_stops [where f = "request_once c m p hs ps js" and s = s]) simp_all
  show ?thesis
    by (simp add: any request_def logger_simps requests_of_append)
qed

theorem non_2xx_is_api_error_without_retry_witness:
  "fst (request (scripted_client ''https://api.hubapi.com'') ''get'' ''crm/v3/objects/deals''
          None None None (start [text_response 500 ''boom'', json_response 200 JNull]))
     = Inl (ApiError 500 ''HTTP request failed'' (JStr ''boom''))
   \<and> world (snd (request (scripted_client ''https://api.hubapi.com'') ''get''
          ''crm/v3/objects/deals'' None None None
          (start [text_response 500 ''boom'', json_response 200 JNull])))
     = [json_response 200 JNull]"
  using non_2xx_is_api_error_without_retry
          [where c = "scripted_client ''https://api.hubapi.com''" and m = "''get''"
             and p = "''crm/v3/objects/deals''" and hs = None and ps = None and js = None
             and s = "start [text_response 500 ''boom'', json_response 200 JNull]"
             and r = "\<lparr>status_code = 500, content_type = ''text/plain'', body_text = ''boom'',
                       json_value = None\<rparr>"
             and w' = "[json_response 200 JNull]"]
  by (simp add: scripted_client_def start_def text_response_def decode_body_def logger_def)

text \<open>
  Claim C5. One call of \<open>request\<close> calls the HTTP client at least once and at most three
  times, each time with the same request. It calls again only after an exception of a
  retried type (\<open>httpx.HTTPError\<close>, \<open>asyncio.TimeoutError\<close>): when the first attempt
  returns or raises anything else, the call is that attempt. Two such failures followed
  by a response with a status in \<open>[200, 300)\<close> give the decoded body of that response;
  three such failures re-raise the third.
\<close>

theorem at_most_three_attempts:
  "(\<exists>k. 1 \<le> k \<and> k \<le> 3 \<and>
        requests_of (trace (snd (request c m p hs ps js s))) =
          requests_of (trace s) @ replicate k (base_url c, build_request c m p hs ps js))
   \<and> ((\<forall>e. fst (request_once c m p hs ps js s) = Inl e \<longrightarrow> \<not> retry_if_exception_type e)
        \<longrightarrow> request c m p hs ps js s = request_once c m p hs ps js s)
   \<and> (retry_if_exception_type e1 \<and> retry_if_exception_type e2
        \<and> transport c (build_request c m p hs ps js) (world s) = (Raised e1, w1)
        \<and> transport c (build_request c m p hs ps js) w1 = (Raised e2, w2)
        \<and> transport c (build_request c m p hs ps js) w2 = (Responded r, w3)
        \<and> 200 \<le> status_code r \<and> status_code r < 300
        \<longrightarrow> fst (request c m p hs ps js s) = Inr (decode_body r)
            \<and> world (snd (request c m p hs ps js s)) = w3
            \<and> requests_of (trace (snd (request c m p hs ps js s))) =
                requests_of (trace s) @ replicate 3 (base_url c, build_request c m p hs ps js))
   \<and> (retry_if_exception_type e1 \<and> retry_if_exception_type e2
        \<and> transport c (build_request c m p hs ps js) (world s) = (Raised e1, w1)
        \<and> transport c (build_request c m p hs ps js) w1 = (Raised e2, w2)
        \<and> transport c (build_request c m p hs ps js) w2 = (Raised e3, w3)
        \<longrightarrow> fst (request c m p hs ps js s) = Inl e3
            \<and> world (snd (request c m p hs ps js s)) = w3
            \<and> requests_of (trace (snd (request c m p hs ps js s))) =
                requests_of (trace s) @ replicate 3 (base_url c, build_request c m p hs ps js))"
proof (intro conjI impI)
  let ?f = "request_once c m p hs ps js"
  let ?rq = "build_request c m p hs ps js"
  show "\<exists>k. 1 \<le> k \<and> k \<le> 3 \<and>
        requests_of (trace (snd (request c m p hs ps js s))) =
          requests_of (trace s) @ replicate k (base_url c, ?rq)"
    unfolding request_def by (rule retrying_requests) (rule request_once_requests)
  {
    assume no: "\<forall>e. fst (?f s) = Inl e \<longrightarrow> \<not> retry_if_exception_type e"
    obtain r1 s1 where f1: "?f s = (r1, s1)" by (cases "?f s")
    show "request c m p hs ps js s = ?f s"
    proof (cases r1)
      case (Inl e)
      then have "\<not> retry_if_exception_type e" using no f1 by simp
      then show ?thesis
        using f1 Inl retrying_stops [where f = ?f and s = s and e = e and s' = s1 and n = 1]
        by (simp add: request_def)
    next
      case (Inr v)
      then show ?thesis
        using f1 retrying_returns [where f = ?f and s = s and v = v and s' = s1 and n = 1]
        by (simp add: request_def)
    qed
  }
  {
    fix last_attempt :: attempt
    assume h: "retry_if_exception_type e1 \<and> retry_if_exception_type e2
        \<and> transport c ?rq (world s) = (Raised e1, w1)
        \<and> transport c ?rq w1 = (Raised e2, w2)
        \<and> transport c ?rq w2 = (last_attempt, w3)"
    define s1 where "s1 = logger WARNING ''Transient HTTP exception, will retry if attempts remain''
                   (s\<lparr>world := w1, trace := trace s @ [Sent (base_url c) ?rq]\<rparr>)"
    define s2 where "s2 = logger WARNING ''Transient HTTP exception, will retry if attempts remain''
                   (s1\<lparr>world := w2, trace := trace s1 @ [Sent (base_url c) ?rq]\<rparr>)"
    have w1: "world s1 = w1" and w2: "world s2 = w2"
      by (simp_all add: s1_def s2_def logger_simps)
    have a1: "?f s = (Inl e1, s1)"
      using h by (simp add: request_once_raised s1_def)
    have a2: "?f s1 = (Inl e2, s2)"
      using h w1 by (simp add: request_once_raised s2_def)
    have "retrying 1 ?f s = retrying 2 ?f s1"
      using a1 h by (intro retrying_again1 [where e = e1]) simp_all
    moreover have "retrying 2 ?f s1 = retrying 3 ?f s2"
      using a2 h by (intro retrying_again2 [where e = e2]) simp_all
    ultimately have third: "request c m p hs ps js s = ?f s2"
      by (simp only: request_def retrying_last)
    have tr: "requests_of (trace s2) = requests_of (trace s) @ replicate 2 (base_url c, ?rq)"
      by (simp add: s1_def s2_def logger_simps requests_of_append numeral_2_eq_2)
    have tr3: "requests_of (trace (snd (request c m p hs ps js s))) =
                requests_of (trace s) @ replicate 3 (base_url c, ?rq)"
      unfolding third by (simp add: request_once_requests tr numeral_2_eq_2 numeral_3_eq_3)
    have at: "transport c ?rq (world s2) = (last_attempt, w3)"
      using h w2 by simp
    note third at tr3
  } note three = this
  {
    assume h: "retry_if_exception_type e1 \<and> retry_if_exception_type e2
        \<and> transport c ?rq (world s) = (Raised e1, w1)
        \<and> transport c ?rq w1 = (Raised e2, w2)
        \<and> transport c ?rq w2 = (Responded r, w3)
        \<and> 200 \<le> status_code r \<and> status_code r < 300"
    then have h': "retry_if_exception_type e1 \<and> retry_if_exception_type e2
        \<and> transport c ?rq (world s) = (Raised e1, w1)
        \<and> transport c ?rq w1 = (Raised e2, w2)
        \<and> transport c ?rq w2 = (Responded r, w3)" by simp
    from three [OF h'] obtain t where
      third: "request c m p hs ps js s = ?f t" and at: "transport c ?rq (world t) = (Responded r, w3)"
      by blast
    show "fst (request c m p hs ps js s) = Inr (decode_body r)"
      unfolding third using h by (simp add: request_once_responded [OF at])
    show "world (snd (request c m p hs ps js s)) = w3"
      unfolding third using h by (simp add: request_once_responded [OF at])
    show "requests_of (trace (snd (request c m p hs ps js s))) =
                requests_of (trace s) @ replicate 3 (base_url c, ?rq)"
      using three(3) [OF h'] .
  }
  {
    assume h: "retry_if_exception_type e1 \<and> retry_if_exception_type e2
        \<and> transport c ?rq (world s) = (Raised e1, w1)
        \<and> transport c ?rq w1 = (Raised e2, w2)
        \<and> transport c ?rq w2 = (Raised e3, w3)"
    from three [OF h] obtain t where
      third: "request c m p hs ps js s = ?f t" and at: "transport c ?rq (world t) = (Raised e3, w3)"
      by blast
    show "fst (request c m p hs ps js s) = Inl e3"
      unfolding third by (simp add: request_once_raised [OF at])
    show "world (snd (request c m p hs ps js s)) = w3"
      unfolding third by (simp add: request_once_raised [OF at] logger_simps)
    show "requests_of (trace (snd (request c m p hs ps js s))) =
                requests_of (trace s) @ replicate 3 (base_url c, ?rq)"
      using three(3) [OF h] .
  }
qed

theorem at_most_three_attempts_witness:
  "fst (request (scripted_client ''https://api.hubapi.com'') ''POST'' ''/crm/v3/objects/deals''
          None None (Some JNull)
          (start [Raised (TimeoutError ''timed out''), Raised (HTTPError ''connection reset''),
                  json_response 201 (JObj [(''id'', JStr ''7'')])]))
     = Inr (JObj [(''id'', JStr ''7'')])
   \<and> fst (request (scripted_client ''https://api.hubapi.com'') ''POST'' ''/crm/v3/objects/deals''
          None None (Some JNull)
          (start [Raised (TimeoutError ''timed out''), Raised (HTTPError ''connection reset''),
                  Raised (TimeoutError ''timed out again''), json_response 201 JNull]))
     = Inl (TimeoutError ''timed out again'')
   \<and> request (scripted_client ''https://api.hubapi.com'') ''POST'' ''/crm/v3/objects/deals''
          None None (Some JNull) (start [Raised (OtherError ''invalid URL''), json_response 201 JNull])
     = request_once (scripted_client ''https://api.hubapi.com'') ''POST'' ''/crm/v3/objects/deals''
          None None (Some JNull) (start [Raised (OtherError ''invalid URL''), json_response 201 JNull])"
proof (intro conjI)
  let ?c = "scripted_client ''https://api.hubapi.com''"
  let ?ok = "\<lparr>status_code = 201, content_type = ''application/json'', body_text = [],
              json_value = Some (JObj [(''id'', JStr ''7'')])\<rparr>"
  show "fst (request ?c ''POST'' ''/crm/v3/objects/deals'' None None (Some JNull)
          (start [Raised (TimeoutError ''timed out''), Raised (HTTPError ''connection reset''),
                  json_response 201 (JObj [(''id'', JStr ''7'')])]))
     = Inr (JObj [(''id'', JStr ''7'')])"
    using at_most_three_attempts
          [where c = ?c and m = "''POST''" and p = "''/crm/v3/objects/deals''" and hs = None
             and ps = None and js = "Some JNull"
             and s = "start [Raised (TimeoutError ''timed out''),
                             Raised (HTTPError ''connection reset''),
                             json_response 201 (JObj [(''id'', JStr ''7'')])]"
             and ?e1.0 = "TimeoutError ''timed out''" and ?e2.0 = "HTTPError ''connection reset''"
             and ?w1.0 = "[Raised (HTTPError ''connection reset''),
                           json_response 201 (JObj [(''id'', JStr ''7'')])]"
             and ?w2.0 = "[json_response 201 (JObj [(''id'', JStr ''7'')])]"
             and r = ?ok and ?w3.0 = "[]", THEN conjunct2, THEN conjunct2, THEN conjunct1]
    by (simp add: scripted_client_def start_def json_response_def decode_body_def)
  show "fst (request ?c ''POST'' ''/crm/v3/objects/deals'' None None (Some JNull)
          (start [Raised (TimeoutError ''timed out''), Raised (HTTPError ''connection reset''),
                  Raised (TimeoutError ''timed out again''), json_response 201 JNull]))
     = Inl (TimeoutError ''timed out again'')"
    using at_most_three_attempts
          [where c = ?c and m = "''POST''" and p = "''/crm/v3/objects/deals''" and hs = None
             and ps = None and js = "Some JNull"
             and s = "start [Raised (TimeoutError ''timed out''),
                             Raised (HTTPError ''connection reset''),
                             Raised (TimeoutError ''timed out again''), json_response 201 JNull]"
             and ?e1.0 = "TimeoutError ''timed out''" and ?e2.0 = "HTTPError ''connection reset''"
             and ?e3.0 = "TimeoutError ''timed out again''"
             and ?w1.0 = "[Raised (HTTPError ''connection reset''),
                           Raised (TimeoutError ''timed out again''), json_response 201 JNull]"
             and ?w2.0 = "[Raised (TimeoutError ''timed out again''), json_response 201 JNull]"
             and ?w3.0 = "[json_response 201 JNull]",
           THEN conjunct2, THEN conjunct2, THEN conjunct2]
    by (simp add: scripted_client_def start_def)
  show "request ?c ''POST'' ''/crm/v3/objects/deals''
          None None (Some JNull) (start [Raised (OtherError ''invalid URL''), json_response 201 JNull])
     = request_once ?c ''POST'' ''/crm/v3/objects/deals''
          None None (Some JNull) (start [Raised (OtherError ''invalid URL''), json_response 201 JNull])"
    using at_most_three_attempts
          [where c = ?c and m = "''POST''" and p = "''/crm/v3/objects/deals''" and hs = None
             and ps = None and js = "Some JNull"
             and s = "start [Raised (OtherError ''invalid URL''), json_response 201 JNull]",
           THEN conjunct2, THEN conjunct1]
    by (simp add: scripted_client_def start_def request_once_def)
qed

subsection \<open>The CRM record service\<close>

text \<open>
  Claim C7. When the lookup finds no contact for the email, \<open>update_contact\<close> raises
  \<open>ValidationError\<close> in the state the lookup left: the only requests of the call are
  the one to three attempts of the search, and no record is created or changed.
\<close>

theorem update_contact_never_creates:
  assumes "fst (find_contact_id_by_email c (email payload) s) = Inr JNull"
  shows "update_contact b c payload s =
           (Inl (ValidationError (''Contact not found for email '' @ email payload)),
            snd (find_contact_id_by_email c (email payload) s))
         \<and> (\<exists>k. 1 \<le> k \<and> k \<le> 3 \<and>
               requests_of (trace (snd (update_contact b c payload s))) =
                 requests_of (trace s) @
                 replicate k (base_url c,
                   \<lparr>http_method = ''POST'', url = ''/crm/v3/objects/contacts/search'',
                    headers = default_headers c, params = None,
                    json_body = Some (search_query (email payload))\<rparr>))"
proof -
  have rq: "build_request c ''POST'' ''/crm/v3/objects/contacts/search'' None None
              (Some (search_query (email payload))) =
            \<lparr>http_method = ''POST'', url = ''/crm/v3/objects/contacts/search'',
             headers = default_headers c, params = None,
             json_body = Some (search_query (email payload))\<rparr>"
    by (simp add: build_request_def merge_headers_def upper_def upper_char_def)
  show ?thesis
    using request_requests [of c "''POST''" "''/crm/v3/objects/contacts/search''" None None
            "Some (search_query (email payload))" s]
    by (simp add: update_contact_miss [OF assms] find_contact_id_by_email_state post_def rq)
qed

theorem update_contact_never_creates_witness:
  "fst (update_contact plain_builtins (scripted_client ''https://api.hubapi.com'')
          \<lparr>email = ''a@b.com'', first_name = Some ''Ann'', last_name = None, phone = None\<rparr>
          (start [json_response 200 (JObj [(''total'', JInt 0), (''results'', JArr [])]),
                  json_response 200 (JObj [(''id'', JStr ''1'')])]))
     = Inl (ValidationError ''Contact not found for email a@b.com'')
   \<and> world (snd (update_contact plain_builtins (scripted_client ''https://api.hubapi.com'')
          \<lparr>email = ''a@b.com'', first_name = Some ''Ann'', last_name = None, phone = None\<rparr>
          (start [json_response 200 (JObj [(''total'', JInt 0), (''results'', JArr [])]),
                  json_response 200 (JObj [(''id'', JStr ''1'')])])))
     = [json_response 200 (JObj [(''id'', JStr ''1'')])]"
proof -
  let ?c = "scripted_client ''https://api.hubapi.com''"
  let ?s = "start [json_response 200 (JObj [(''total'', JInt 0), (''results'', JArr [])]),
                   json_response 200 (JObj [(''id'', JStr ''1'')])]"
  have look: "find_contact_id_by_email ?c ''a@b.com'' ?s =
          (Inr JNull,
           \<lparr>world = [json_response 200 (JObj [(''id'', JStr ''1'')])],
            trace = [Sent ''https://api.hubapi.com''
                       (build_request ?c ''POST'' ''/crm/v3/objects/contacts/search'' None None
                          (Some (search_query ''a@b.com'')))]\<rparr>)"
    by (simp add: find_contact_id_by_email_def get_contact_by_email_def run_simps start_def)
  show ?thesis
    using update_contact_never_creates
            [where c = ?c and s = ?s and b = plain_builtins
               and payload = "\<lparr>email = ''a@b.com'', first_name = Some ''Ann'', last_name = None,
                               phone = None\<rparr>"]
    by (simp add: look)
qed

text \<open>
  Claim C8. When the create call raises \<open>ApiError\<close> with status 409 and the lookup
  that follows finds no contact, \<open>create_contact\<close> logs a warning and re-raises that
  same \<open>ApiError\<close>; it returns no record.
\<close>

theorem conflict_without_existing_is_reraised:
  assumes "fst (post c ''/crm/v3/objects/contacts''
                 (Some (JObj [(''properties'', JObj (contact_properties payload))])) s)
           = Inl (ApiError 409 msg details)"
    and "fst (get_contact_by_email c (email payload)
                (snd (post c ''/crm/v3/objects/contacts''
                        (Some (JObj [(''properties'', JObj (contact_properties payload))])) s)))
         = Inr existing"
    and "\<not> truthy existing"
  shows "create_contact c payload s =
           (Inl (ApiError 409 msg details),
            logger WARNING ''Contact conflict reported but existing record not found''
              (snd (get_contact_by_email c (email payload)
                 (snd (post c ''/crm/v3/objects/contacts''
                         (Some (JObj [(''properties'', JObj (contact_properties payload))])) s)))))"
proof -
  obtain s1 where p: "post c ''/crm/v3/objects/contacts''
                 (Some (JObj [(''properties'', JObj (contact_properties payload))])) s
           = (Inl (ApiError 409 msg details), s1)"
    using assms(1)
    by (cases "post c ''/crm/v3/objects/contacts''
                 (Some (JObj [(''properties'', JObj (contact_properties payload))])) s") simp
  obtain s2 where g: "get_contact_by_email c (email payload) s1 = (Inr existing, s2)"
    using assms(2) p by (cases "get_contact_by_email c (email payload) s1") simp
  show ?thesis
    using assms(3) by (simp add: create_contact_def p g)
qed

theorem conflict_without_existing_is_reraised_witness:
  "fst (create_contact (scripted_client ''https://api.hubapi.com'')
          \<lparr>email = ''a@b.com'', first_name = Some ''Ann'', last_name = None, phone = None\<rparr>
          (start [json_response 409 (JObj [(''category'', JStr ''CONFLICT'')]),
                  json_response 200 (JObj [(''results'', JArr [])])]))
     = Inl (ApiError 409 ''HTTP request failed'' (JObj [(''category'', JStr ''CONFLICT'')]))
   \<and> logged (trace (snd (create_contact (scripted_client ''https://api.hubapi.com'')
          \<lparr>email = ''a@b.com'', first_name = Some ''Ann'', last_name = None, phone = None\<rparr>
          (start [json_response 409 (JObj [(''category'', JStr ''CONFLICT'')]),
                  json_response 200 (JObj [(''results'', JArr [])])]))))
     = [(ERROR, ''HTTP error''),
        (WARNING, ''Contact conflict reported but existing record not found'')]"
proof -
  let ?c = "scripted_client ''https://api.hubapi.com''"
  let ?p = "\<lparr>email = ''a@b.com'', first_name = Some ''Ann'', last_name = None, phone = None\<rparr>"
  let ?s = "start [json_response 409 (JObj [(''category'', JStr ''CONFLICT'')]),
                   json_response 200 (JObj [(''results'', JArr [])])]"
  let ?body = "Some (JObj [(''properties'', JObj (contact_properties ?p))])"
  have p: "post ?c ''/crm/v3/objects/contacts'' ?body ?s =
             (Inl (ApiError 409 ''HTTP request failed'' (JObj [(''category'', JStr ''CONFLICT'')])),
              \<lparr>world = [json_response 200 (JObj [(''results'', JArr [])])],
               trace = [Sent ''https://api.hubapi.com''
                          (build_request ?c ''POST'' ''/crm/v3/objects/contacts'' None None ?body),
                        Logged ERROR ''HTTP error'']\<rparr>)"
    by (simp add: run_simps start_def logger_def)
  have g: "get_contact_by_email ?c ''a@b.com''
             \<lparr>world = [json_response 200 (JObj [(''results'', JArr [])])],
              trace = [Sent ''https://api.hubapi.com''
                          (build_request ?c ''POST'' ''/crm/v3/objects/contacts'' None None ?body),
                        Logged ERROR ''HTTP error'']\<rparr> =
           (Inr JNull,
            \<lparr>world = [],
             trace = [Sent ''https://api.hubapi.com''
                          (build_request ?c ''POST'' ''/crm/v3/objects/contacts'' None None ?body),
                      Logged ERROR ''HTTP error'',
                      Sent ''https://api.hubapi.com''
                          (build_request ?c ''POST'' ''/crm/v3/objects/contacts/search'' None None
                             (Some (search_query ''a@b.com'')))]\<rparr>)"
    by (simp add: get_contact_by_email_def run_simps)
  show ?thesis
    using conflict_without_existing_is_reraised
            [where c = ?c and payload = ?p and s = ?s and msg = "''HTTP request failed''"
               and details = "JObj [(''category'', JStr ''CONFLICT'')]" and existing = JNull]
    by (simp add: p g logger_def)
qed

lemma create_contact_conflict_existing:
  assumes "fst (post c ''/crm/v3/objects/contacts''
                 (Some (JObj [(''properties'', JObj (contact_properties payload))])) s)
           = Inl (ApiError 409 msg details)"
    and "fst (get_contact_by_email c (email payload)
                (snd (post c ''/crm/v3/objects/contacts''
                        (Some (JObj [(''properties'', JObj (contact_properties payload))])) s)))
         = Inr (JObj existing)"
    and "existing \<noteq> []"
  shows "create_contact c payload s =
           (Inr (JObj [(''id'', dict_get existing ''id'' JNull),
                       (''properties'', dict_get existing ''properties'' (JObj [])),
                       (''status'', JStr ''existing'')]),
            logger INFO ''Contact already existed''
              (snd (get_contact_by_email c (email payload)
                 (snd (post c ''/crm/v3/objects/contacts''
                         (Some (JObj [(''properties'', JObj (contact_properties payload))])) s)))))"
proof -
  obtain s1 where p: "post c ''/crm/v3/objects/contacts''
                 (Some (JObj [(''properties'', JObj (contact_properties payload))])) s
           = (Inl (ApiError 409 msg details), s1)"
    using assms(1)
    by (cases "post c ''/crm/v3/objects/contacts''
                 (Some (JObj [(''properties'', JObj (contact_properties payload))])) s") simp
  obtain s2 where g: "get_contact_by_email c (email payload) s1 = (Inr (JObj existing), s2)"
    using assms(2) p by (cases "get_contact_by_email c (email payload) s1") simp
  show ?thesis
    using assms(3) by (simp add: create_contact_def p g)
qed

lemma crm_client_simps:
  "transport crm_client = crm_remote"
  "base_url crm_client = ''https://api.hubapi.com''"
  "default_headers crm_client = [(''Authorization'', ''Bearer token'')]"
  by (simp_all add: crm_client_def)

lemma post_request_fields:
  "http_method (build_request c ''POST'' (CHR ''/'' # p) None None js) = ''POST''"
  "url (build_request c ''POST'' (CHR ''/'' # p) None None js) = CHR ''/'' # p"
  "json_body (build_request c ''POST'' (CHR ''/'' # p) None None js) = js"
  by (simp_all add: build_request_def upper_def upper_char_def)

lemma email_property:
  "map_of (contact_properties payload) ''email'' = Some (JStr (email payload))"
  by (simp add: contact_properties_def map_of_set_if_truthy split: option.splits)

lemma created_contact_body:
  "created_contact (Some (JObj [(''properties'', JObj (contact_properties payload))])) =
     Some (email payload, contact_properties payload)"
  by (simp add: created_contact_def dict_get_def email_property)

lemma search_email_query: "search_email (Some (search_query e)) = Some e"
  by (simp add: search_email_def search_query_def dict_get_def)

lemma crm_lookup:
  "get_contact_by_email crm_client e s =
     ((case map_of (world s) e of
         None \<Rightarrow> Inr JNull
       | Some (i, props) \<Rightarrow> Inr (contact_record i props)),
      s\<lparr>trace := trace s @ [Sent ''https://api.hubapi.com''
          (build_request crm_client ''POST'' ''/crm/v3/objects/contacts/search'' None None
             (Some (search_query e)))]\<rparr>)"
  by (simp add: get_contact_by_email_def post_def request_first_attempt crm_client_simps
        crm_remote_def post_request_fields search_email_query json_response_def decode_body_def
        dict_get_def
      split: option.splits)

lemma crm_create_new:
  assumes "map_of (world s) (email payload) = None"
  shows "fst (create_contact crm_client payload s) =
           Inr (contact_record (str_nat (Suc (length (world s)))) (contact_properties payload))"
    and "world (snd (create_contact crm_client payload s)) =
           world s @ [(email payload, str_nat (Suc (length (world s))), contact_properties payload)]"
  using assms
  by (simp_all add: create_contact_def post_def request_first_attempt crm_client_simps
        crm_remote_def post_request_fields created_contact_body json_response_def decode_body_def
        logger_simps)

lemma crm_create_existing:
  assumes "map_of (world s) (email payload) = Some (i, props)"
  shows "fst (create_contact crm_client payload s) =
           Inr (JObj [(''id'', JStr i), (''properties'', JObj props),
                      (''status'', JStr ''existing'')])"
    and "world (snd (create_contact crm_client payload s)) = world s"
  using assms
  by (simp_all add: create_contact_def post_def request_first_attempt crm_client_simps
        crm_remote_def post_request_fields created_contact_body json_response_def decode_body_def
        logger_simps crm_lookup contact_record_def dict_get_def)

lemma create_contact_twice:
  "\<exists>i r1 r2.
     fst (create_contact crm_client payload s) = Inr (JObj r1)
     \<and> fst (create_contact crm_client payload (snd (create_contact crm_client payload s)))
         = Inr (JObj r2)
     \<and> dict_get r1 ''id'' JNull = JStr i
     \<and> dict_get r2 ''id'' JNull = JStr i
     \<and> dict_get r2 ''status'' JNull = JStr ''existing''"
proof (cases "map_of (world s) (email payload)")
  case None
  let ?i = "str_nat (Suc (length (world s)))"
  let ?s1 = "snd (create_contact crm_client payload s)"
  have "map_of (world ?s1) (email payload) = Some (?i, contact_properties payload)"
    using None by (simp add: crm_create_new(2) map_of_append map_add_def)
  then have "fst (create_contact crm_client payload ?s1) =
           Inr (JObj [(''id'', JStr ?i), (''properties'', JObj (contact_properties payload)),
                      (''status'', JStr ''existing'')])"
    by (rule crm_create_existing(1))
  then show ?thesis
    using crm_create_new(1) [OF None] by (simp add: contact_record_def dict_get_def)
next
  case (Some row)
  obtain i props where row: "row = (i, props)" by (cases row)
  let ?s1 = "snd (create_contact crm_client payload s)"
  have first: "fst (create_contact crm_client payload s) =
           Inr (JObj [(''id'', JStr i), (''properties'', JObj props),
                      (''status'', JStr ''existing'')])"
    using Some row by (intro crm_create_existing(1)) simp
  have "map_of (world ?s1) (email payload) = Some (i, props)"
    using Some row by (simp add: crm_create_existing(2))
  then have "fst (create_contact crm_client payload ?s1) =
           Inr (JObj [(''id'', JStr i), (''properties'', JObj props),
                      (''status'', JStr ''existing'')])"
    by (rule crm_create_existing(1))
  then show ?thesis
    using first by (simp add: dict_get_def)
qed

text \<open>
  Claim C3. When the create call raises \<open>ApiError\<close> with status 409 and the lookup
  that follows finds a contact, \<open>create_contact\<close> returns the id and the properties of
  that contact with \<open>status\<close> set to \<open>existing\<close>. Against a remote end that keeps
  one contact per email, two calls for the same email in a row return the same id, and
  the second result has the status \<open>existing\<close>.
\<close>

theorem create_contact_is_idempotent:
  assumes "fst (post c ''/crm/v3/objects/contacts''
                 (Some (JObj [(''properties'', JObj (contact_properties payload))])) s)
           = Inl (ApiError 409 msg details)"
    and "fst (get_contact_by_email c (email payload)
                (snd (post c ''/crm/v3/objects/contacts''
                        (Some (JObj [(''properties'', JObj (contact_properties payload))])) s)))
         = Inr (JObj existing)"
    and "existing \<noteq> []"
  shows "create_contact c payload s =
           (Inr (JObj [(''id'', dict_get existing ''id'' JNull),
                       (''properties'', dict_get existing ''properties'' (JObj [])),
                       (''status'', JStr ''existing'')]),
            logger INFO ''Contact already existed''
              (snd (get_contact_by_email c (email payload)
                 (snd (post c ''/crm/v3/objects/contacts''
                         (Some (JObj [(''properties'', JObj (contact_properties payload))])) s)))))
         \<and> (\<exists>i r1 r2.
               fst (create_contact crm_client q t) = Inr (JObj r1)
               \<and> fst (create_contact crm_client q (snd (create_contact crm_client q t)))
                   = Inr (JObj r2)
               \<and> dict_get r1 ''id'' JNull = JStr i
               \<and> dict_get r2 ''id'' JNull = JStr i
               \<and> dict_get r2 ''status'' JNull = JStr ''existing'')"
  using create_contact_conflict_existing [OF assms] create_contact_twice [of q t]
  by (intro conjI)

theorem create_contact_is_idempotent_witness:
  "fst (create_contact (scripted_client ''https://api.hubapi.com'')
          \<lparr>email = ''a@b.com'', first_name = Some ''Ann'', last_name = None, phone = None\<rparr>
          (start [json_response 409 (JObj [(''category'', JStr ''CONFLICT'')]),
                  json_response 200
                    (JObj [(''results'',
                            JArr [JObj [(''id'', JStr ''17''),
                                        (''properties'', JObj [(''email'', JStr ''a@b.com'')])]])])]))
     = Inr (JObj [(''id'', JStr ''17''),
                  (''properties'', JObj [(''email'', JStr ''a@b.com'')]),
                  (''status'', JStr ''existing'')])
   \<and> (\<exists>i r1 r2.
         fst (create_contact crm_client
                \<lparr>email = ''a@b.com'', first_name = None, last_name = None, phone = None\<rparr>
                (start [])) = Inr (JObj r1)
         \<and> fst (create_contact crm_client
                  \<lparr>email = ''a@b.com'', first_name = None, last_name = None, phone = None\<rparr>
                  (snd (create_contact crm_client
                          \<lparr>email = ''a@b.com'', first_name = None, last_name = None,
                           phone = None\<rparr> (start [])))) = Inr (JObj r2)
         \<and> dict_get r1 ''id'' JNull = JStr i
         \<and> dict_get r2 ''id'' JNull = JStr i
         \<and> dict_get r2 ''status'' JNull = JStr ''existing'')"
proof -
  let ?c = "scripted_client ''https://api.hubapi.com''"
  let ?p = "\<lparr>email = ''a@b.com'', first_name = Some ''Ann'', last_name = None, phone = None\<rparr>"
  let ?found = "JObj [(''results'',
                       JArr [JObj [(''id'', JStr ''17''),
                                   (''properties'', JObj [(''email'', JStr ''a@b.com'')])]])]"
  let ?s = "start [json_response 409 (JObj [(''category'', JStr ''CONFLICT'')]),
                   json_response 200 ?found]"
  let ?body = "Some (JObj [(''properties'', JObj (contact_properties ?p))])"
  let ?s1 = "\<lparr>world = [json_response 200 ?found],
               trace = [Sent ''https://api.hubapi.com''
                          (build_request ?c ''POST'' ''/crm/v3/objects/contacts'' None None ?body),
                        Logged ERROR ''HTTP error'']\<rparr>"
  have p: "post ?c ''/crm/v3/objects/contacts'' ?body ?s =
             (Inl (ApiError 409 ''HTTP request failed'' (JObj [(''category'', JStr ''CONFLICT'')])),
              ?s1)"
    by (simp add: run_simps start_def logger_def)
  have g: "fst (get_contact_by_email ?c ''a@b.com'' ?s1) =
             Inr (JObj [(''id'', JStr ''17''),
                        (''properties'', JObj [(''email'', JStr ''a@b.com'')])])"
    by (simp add: get_contact_by_email_def run_simps)
  show ?thesis
    using create_contact_is_idempotent
            [where c = ?c and payload = ?p and s = ?s and msg = "''HTTP request failed''"
               and details = "JObj [(''category'', JStr ''CONFLICT'')]"
               and existing = "[(''id'', JStr ''17''),
                                (''properties'', JObj [(''email'', JStr ''a@b.com'')])]"
               and q = "\<lparr>email = ''a@b.com'', first_name = None, last_name = None,
                         phone = None\<rparr>"
               and t = "start []"]
    by (simp add: p g dict_get_def)
qed

lemma distinct_set_if_not_none:
  "distinct (map fst ps) \<Longrightarrow> distinct (map fst (set_if_not_none k x ps))"
  by (cases x) (simp_all add: distinct_update)

lemma patch_request:
  "build_request c ''PATCH'' (CHR ''/'' # p) None None js =
     \<lparr>http_method = ''PATCH'', url = CHR ''/'' # p, headers = default_headers c,
      params = None, json_body = js\<rparr>"
  by (simp add: build_request_def merge_headers_def upper_def upper_char_def)

lemma search_request:
  "build_request c ''POST'' ''/crm/v3/objects/contacts/search'' None None js =
     \<lparr>http_method = ''POST'', url = ''/crm/v3/objects/contacts/search'',
      headers = default_headers c, params = None, json_body = js\<rparr>"
  by (simp add: build_request_def merge_headers_def upper_def upper_char_def)

lemma update_contact_hit:
  assumes "fst (find_contact_id_by_email c (email payload) s) = Inr cid" and "cid \<noteq> JNull"
  shows "update_contact b c payload s =
           patch c (''/crm/v3/objects/contacts/'' @ py_str b cid)
             (Some (JObj [(''properties'', JObj (contact_patch payload))]))
             (snd (find_contact_id_by_email c (email payload) s))"
  using assms
  by (cases "find_contact_id_by_email c (email payload) s")
     (simp add: update_contact_def require_def)

text \<open>
  Claim C9. The properties that \<open>update_contact\<close> and \<open>update_deal\<close> send are
  exactly the fields of the payload that are not \<open>None\<close>, each once and with the value
  given; every request of \<open>update_deal\<close> is a PATCH of the deal with those properties
  as its body, and when the lookup finds an id, the requests of \<open>update_contact\<close> are
  the attempts of the search followed by those of a PATCH of that contact with those
  properties as its body.
\<close>

theorem updates_send_sparse_patch:
  "map_of (contact_patch cp) =
     (\<lambda>k. if k = ''firstname'' then map_option JStr (first_name cp)
          else if k = ''lastname'' then map_option JStr (last_name cp)
          else if k = ''phone'' then map_option JStr (phone cp)
          else None)
   \<and> distinct (map fst (contact_patch cp))
   \<and> map_of (deal_patch dp) =
     (\<lambda>k. if k = ''dealname'' then map_option JStr (name dp)
          else if k = ''amount'' then map_option JFloat (amount dp)
          else if k = ''dealstage'' then map_option JStr (stage dp)
          else if k = ''pipeline'' then map_option JStr (pipeline dp)
          else None)
   \<and> distinct (map fst (deal_patch dp))
   \<and> (\<exists>k. 1 \<le> k \<and> k \<le> 3 \<and>
         requests_of (trace (snd (update_deal c dp s))) =
           requests_of (trace s) @
           replicate k (base_url c,
             \<lparr>http_method = ''PATCH'', url = ''/crm/v3/objects/deals/'' @ deal_id dp,
              headers = default_headers c, params = None,
              json_body = Some (JObj [(''properties'', JObj (deal_patch dp))])\<rparr>))
   \<and> (fst (find_contact_id_by_email c (email cp) s) = Inr cid \<and> cid \<noteq> JNull \<longrightarrow>
        (\<exists>j k. 1 \<le> j \<and> j \<le> 3 \<and> 1 \<le> k \<and> k \<le> 3 \<and>
           requests_of (trace (snd (update_contact b c cp s))) =
             requests_of (trace s) @
             replicate j (base_url c,
               \<lparr>http_method = ''POST'', url = ''/crm/v3/objects/contacts/search'',
                headers = default_headers c, params = None,
                json_body = Some (search_query (email cp))\<rparr>) @
             replicate k (base_url c,
               \<lparr>http_method = ''PATCH'', url = ''/crm/v3/objects/contacts/'' @ py_str b cid,
                headers = default_headers c, params = None,
                json_body = Some (JObj [(''properties'', JObj (contact_patch cp))])\<rparr>)))"
proof (intro conjI impI)
  show "map_of (contact_patch cp) =
     (\<lambda>k. if k = ''firstname'' then map_option JStr (first_name cp)
          else if k = ''lastname'' then map_option JStr (last_name cp)
          else if k = ''phone'' then map_option JStr (phone cp)
          else None)"
    by (rule ext) (simp add: contact_patch_def map_of_set_if_not_none split: option.splits)
  show "distinct (map fst (contact_patch cp))"
    by (simp add: contact_patch_def distinct_set_if_not_none)
  show "map_of (deal_patch dp) =
     (\<lambda>k. if k = ''dealname'' then map_option JStr (name dp)
          else if k = ''amount'' then map_option JFloat (amount dp)
          else if k = ''dealstage'' then map_option JStr (stage dp)
          else if k = ''pipeline'' then map_option JStr (pipeline dp)
          else None)"
    by (rule ext) (simp add: deal_patch_def map_of_set_if_not_none split: option.splits)
  show "distinct (map fst (deal_patch dp))"
    by (simp add: deal_patch_def distinct_set_if_not_none)
  show "\<exists>k. 1 \<le> k \<and> k \<le> 3 \<and>
         requests_of (trace (snd (update_deal c dp s))) =
           requests_of (trace s) @
           replicate k (base_url c,
             \<lparr>http_method = ''PATCH'', url = ''/crm/v3/objects/deals/'' @ deal_id dp,
              headers = default_headers c, params = None,
              json_body = Some (JObj [(''properties'', JObj (deal_patch dp))])\<rparr>)"
    using request_requests [of c "''PATCH''" "''/crm/v3/objects/deals/'' @ deal_id dp" None None
            "Some (JObj [(''properties'', JObj (deal_patch dp))])" s]
    by (simp add: update_deal_def patch_def patch_request)
  {
    assume h: "fst (find_contact_id_by_email c (email cp) s) = Inr cid \<and> cid \<noteq> JNull"
    let ?s1 = "snd (find_contact_id_by_email c (email cp) s)"
    let ?search = "(base_url c,
               \<lparr>http_method = ''POST'', url = ''/crm/v3/objects/contacts/search'',
                headers = default_headers c, params = None,
                json_body = Some (search_query (email cp))\<rparr>)"
    let ?patch = "(base_url c,
               \<lparr>http_method = ''PATCH'', url = ''/crm/v3/objects/contacts/'' @ py_str b cid,
                headers = default_headers c, params = None,
                json_body = Some (JObj [(''properties'', JObj (contact_patch cp))])\<rparr>)"
    obtain j where j: "1 \<le> j" "j \<le> 3"
      "requests_of (trace ?s1) = requests_of (trace s) @ replicate j ?search"
      using request_requests [of c "''POST''" "''/crm/v3/objects/contacts/search''" None None
              "Some (search_query (email cp))" s]
      by (auto simp: find_contact_id_by_email_state post_def search_request)
    obtain k where k: "1 \<le> k" "k \<le> 3"
      "requests_of (trace (snd (update_contact b c cp s))) =
         requests_of (trace ?s1) @ replicate k ?patch"
      using request_requests [of c "''PATCH''" "''/crm/v3/objects/contacts/'' @ py_str b cid"
              None None "Some (JObj [(''properties'', JObj (contact_patch cp))])" ?s1] h
      by (auto simp: update_contact_hit patch_def patch_request)
    show "\<exists>j k. 1 \<le> j \<and> j \<le> 3 \<and> 1 \<le> k \<and> k \<le> 3 \<and>
           requests_of (trace (snd (update_contact b c cp s))) =
             requests_of (trace s) @ replicate j ?search @ replicate k ?patch"
      using j k by (intro exI [of _ j] exI [of _ k]) simp
  }
qed

theorem updates_send_sparse_patch_witness:
  "\<exists>j k. 1 \<le> j \<and> j \<le> 3 \<and> 1 \<le> k \<and> k \<le> 3 \<and>
     requests_of (trace (snd (update_contact plain_builtins
        (scripted_client ''https://api.hubapi.com'')
        \<lparr>email = ''a@b.com'', first_name = Some ''Ann'', last_name = None, phone = Some []\<rparr>
        (start [json_response 200 (JObj [(''results'', JArr [JObj [(''id'', JStr ''17'')]])]),
                json_response 200 (JObj [(''id'', JStr ''17'')])])))) =
       replicate j (''https://api.hubapi.com'',
         \<lparr>http_method = ''POST'', url = ''/crm/v3/objects/contacts/search'',
          headers = [(''Authorization'', ''Bearer token'')], params = None,
          json_body = Some (search_query ''a@b.com'')\<rparr>) @
       replicate k (''https://api.hubapi.com'',
         \<lparr>http_method = ''PATCH'', url = ''/crm/v3/objects/contacts/17'',
          headers = [(''Authorization'', ''Bearer token'')], params = None,
          json_body = Some (JObj [(''properties'',
                        JObj [(''firstname'', JStr ''Ann''), (''phone'', JStr [])])])\<rparr>)"
proof -
  let ?c = "scripted_client ''https://api.hubapi.com''"
  let ?s = "start [json_response 200 (JObj [(''results'', JArr [JObj [(''id'', JStr ''17'')]])]),
                   json_response 200 (JObj [(''id'', JStr ''17'')])]"
  have look: "fst (find_contact_id_by_email ?c ''a@b.com'' ?s) = Inr (JStr ''17'')"
    by (simp add: find_contact_id_by_email_def get_contact_by_email_def run_simps)
  show ?thesis
    using updates_send_sparse_patch
            [where c = ?c and s = ?s and b = plain_builtins and cid = "JStr ''17''"
               and cp = "\<lparr>email = ''a@b.com'', first_name = Some ''Ann'', last_name = None,
                          phone = Some []\<rparr>",
             THEN conjunct2, THEN conjunct2, THEN conjunct2, THEN conjunct2, THEN conjunct2]
    by (simp add: look contact_patch_def scripted_client_simps)
qed

lemma deal_request:
  "build_request c ''POST'' ''/crm/v3/objects/deals'' None None js =
     \<lparr>http_method = ''POST'', url = ''/crm/v3/objects/deals'',
      headers = default_headers c, params = None, json_body = js\<rparr>"
  by (simp add: build_request_def merge_headers_def upper_def upper_char_def)

lemma create_deal_miss:
  assumes "fst (post c ''/crm/v3/objects/deals''
                 (Some (JObj [(''properties'', JObj (deal_properties payload))])) s) = Inr (JObj d)"
    and "associated_contact_email payload = Some e" and "e \<noteq> []"
    and "fst (find_contact_id_by_email c e
                (snd (post c ''/crm/v3/objects/deals''
                        (Some (JObj [(''properties'', JObj (deal_properties payload))])) s)))
         = Inr JNull"
  shows "create_deal b c payload s =
           (Inl (ValidationError (''Contact not found for email '' @ e)),
            snd (find_contact_id_by_email c e
                   (snd (post c ''/crm/v3/objects/deals''
                           (Some (JObj [(''properties'', JObj (deal_properties payload))])) s))))"
proof -
  obtain s1 where p: "post c ''/crm/v3/objects/deals''
                 (Some (JObj [(''properties'', JObj (deal_properties payload))])) s
                 = (Inr (JObj d), s1)"
    using assms(1)
    by (cases "post c ''/crm/v3/objects/deals''
                 (Some (JObj [(''properties'', JObj (deal_properties payload))])) s") simp
  obtain s2 where f: "find_contact_id_by_email c e s1 = (Inr JNull, s2)"
    using assms(4) p by (cases "find_contact_id_by_email c e s1") simp
  show ?thesis
    using assms(2,3) by (simp add: create_deal_def p f require_def)
qed

lemma create_deal_miss_run:
  "create_deal plain_builtins (scripted_client ''https://api.hubapi.com'')
     \<lparr>name = Some ''Renewal'', amount = None, stage = None, pipeline = None,
      associated_contact_email = Some ''a@b.com''\<rparr>
     (start [json_response 201 (JObj [(''id'', JStr ''d1'')]),
             json_response 200 (JObj [(''results'', JArr [])])])
   = (Inl (ValidationError ''Contact not found for email a@b.com''),
      \<lparr>world = [],
       trace = [Sent ''https://api.hubapi.com''
                  \<lparr>http_method = ''POST'', url = ''/crm/v3/objects/deals'',
                   headers = [(''Authorization'', ''Bearer token'')], params = None,
                   json_body = Some (JObj [(''properties'',
                                 JObj [(''dealname'', JStr ''Renewal'')])])\<rparr>,
                Sent ''https://api.hubapi.com''
                  \<lparr>http_method = ''POST'', url = ''/crm/v3/objects/contacts/search'',
                   headers = [(''Authorization'', ''Bearer token'')], params = None,
                   json_body = Some (search_query ''a@b.com'')\<rparr>]\<rparr>)"
  by (simp add: create_deal_def find_contact_id_by_email_def get_contact_by_email_def run_simps
        deal_request search_request deal_properties_def deal_name_def require_def start_def)

text \<open>
  Claim C1, as amended. When the deal has been created and the lookup finds no contact
  for the associated email, \<open>create_deal\<close> raises \<open>ValidationError\<close> and the caller
  gets that exception alone, not the created deal record. The deal is not rolled back:
  the requests of the call are the attempts of the deal creation followed by those of the
  contact search, and nothing is sent after the lookup.
\<close>

theorem create_deal_association_miss_raises:
  assumes "fst (post c ''/crm/v3/objects/deals''
                 (Some (JObj [(''properties'', JObj (deal_properties payload))])) s) = Inr (JObj d)"
    and "associated_contact_email payload = Some e" and "e \<noteq> []"
    and "fst (find_contact_id_by_email c e
                (snd (post c ''/crm/v3/objects/deals''
                        (Some (JObj [(''properties'', JObj (deal_properties payload))])) s)))
         = Inr JNull"
  shows "create_deal b c payload s =
           (Inl (ValidationError (''Contact not found for email '' @ e)),
            snd (find_contact_id_by_email c e
                   (snd (post c ''/crm/v3/objects/deals''
                           (Some (JObj [(''properties'', JObj (deal_properties payload))])) s))))
         \<and> (\<exists>j k. 1 \<le> j \<and> j \<le> 3 \<and> 1 \<le> k \<and> k \<le> 3 \<and>
               requests_of (trace (snd (create_deal b c payload s))) =
                 requests_of (trace s) @
                 replicate j (base_url c,
                   \<lparr>http_method = ''POST'', url = ''/crm/v3/objects/deals'',
                    headers = default_headers c, params = None,
                    json_body = Some (JObj [(''properties'', JObj (deal_properties payload))])\<rparr>) @
                 replicate k (base_url c,
                   \<lparr>http_method = ''POST'', url = ''/crm/v3/objects/contacts/search'',
                    headers = default_headers c, params = None,
                    json_body = Some (search_query e)\<rparr>))"
proof -
  let ?body = "Some (JObj [(''properties'', JObj (deal_properties payload))])"
  let ?s1 = "snd (post c ''/crm/v3/objects/deals'' ?body s)"
  let ?s2 = "snd (find_contact_id_by_email c e ?s1)"
  let ?create = "(base_url c,
                   \<lparr>http_method = ''POST'', url = ''/crm/v3/objects/deals'',
                    headers = default_headers c, params = None, json_body = ?body\<rparr>)"
  let ?search = "(base_url c,
                   \<lparr>http_method = ''POST'', url = ''/crm/v3/objects/contacts/search'',
                    headers = default_headers c, params = None,
                    json_body = Some (search_query e)\<rparr>)"
  have res: "create_deal b c payload s =
               (Inl (ValidationError (''Contact not found for email '' @ e)), ?s2)"
    using assms by (rule create_deal_miss)
  obtain j where j: "1 \<le> j" "j \<le> 3"
    "requests_of (trace ?s1) = requests_of (trace s) @ replicate j ?create"
    using request_requests [of c "''POST''" "''/crm/v3/objects/deals''" None None ?body s]
    by (auto simp: post_def deal_request)
  obtain k where k: "1 \<le> k" "k \<le> 3"
    "requests_of (trace ?s2) = requests_of (trace ?s1) @ replicate k ?search"
    using request_requests [of c "''POST''" "''/crm/v3/objects/contacts/search''" None None
            "Some (search_query e)" ?s1]
    by (auto simp: find_contact_id_by_email_state post_def search_request)
  have "\<exists>j k. 1 \<le> j \<and> j \<le> 3 \<and> 1 \<le> k \<and> k \<le> 3 \<and>
          requests_of (trace (snd (create_deal b c payload s))) =
            requests_of (trace s) @ replicate j ?create @ replicate k ?search"
    using j k by (intro exI [of _ j] exI [of _ k]) (simp add: res)
  with res show ?thesis by (intro conjI)
qed

theorem create_deal_association_miss_raises_witness:
  "fst (create_deal plain_builtins (scripted_client ''https://api.hubapi.com'')
     \<lparr>name = Some ''Renewal'', amount = None, stage = None, pipeline = None,
      associated_contact_email = Some ''a@b.com''\<rparr>
     (start [json_response 201 (JObj [(''id'', JStr ''d1'')]),
             json_response 200 (JObj [(''results'', JArr [])])]))
   = Inl (ValidationError ''Contact not found for email a@b.com'')"
proof -
  let ?c = "scripted_client ''https://api.hubapi.com''"
  let ?p = "\<lparr>name = Some ''Renewal'', amount = None, stage = None, pipeline = None,
             associated_contact_email = Some ''a@b.com''\<rparr>"
  let ?s = "start [json_response 201 (JObj [(''id'', JStr ''d1'')]),
                   json_response 200 (JObj [(''results'', JArr [])])]"
  let ?body = "Some (JObj [(''properties'', JObj (deal_properties ?p))])"
  have p: "post ?c ''/crm/v3/objects/deals'' ?body ?s =
             (Inr (JObj [(''id'', JStr ''d1'')]),
              \<lparr>world = [json_response 200 (JObj [(''results'', JArr [])])],
               trace = [Sent ''https://api.hubapi.com''
                          (build_request ?c ''POST'' ''/crm/v3/objects/deals'' None None ?body)]\<rparr>)"
    by (simp add: run_simps start_def)
  have f: "fst (find_contact_id_by_email ?c ''a@b.com''
              \<lparr>world = [json_response 200 (JObj [(''results'', JArr [])])],
               trace = [Sent ''https://api.hubapi.com''
                          (build_request ?c ''POST'' ''/crm/v3/objects/deals'' None None ?body)]\<rparr>)
           = Inr JNull"
    by (simp add: find_contact_id_by_email_def get_contact_by_email_def run_simps)
  show ?thesis
    using create_deal_association_miss_raises
            [where c = ?c and payload = ?p and s = ?s and b = plain_builtins
               and d = "[(''id'', JStr ''d1'')]" and e = "''a@b.com''", THEN conjunct1]
    by (simp add: p f)
qed

text \<open>
  Claim C1 as stated fails: with the deal \<open>d1\<close> created and an empty search result,
  the call ends in the \<open>ValidationError\<close> and does not return the created record.
\<close>

theorem create_deal_returns_deal_counterexample:
  "fst (create_deal plain_builtins (scripted_client ''https://api.hubapi.com'')
     \<lparr>name = Some ''Renewal'', amount = None, stage = None, pipeline = None,
      associated_contact_email = Some ''a@b.com''\<rparr>
     (start [json_response 201 (JObj [(''id'', JStr ''d1'')]),
             json_response 200 (JObj [(''results'', JArr [])])]))
   = Inl (ValidationError ''Contact not found for email a@b.com'')
   \<and> fst (create_deal plain_builtins (scripted_client ''https://api.hubapi.com'')
     \<lparr>name = Some ''Renewal'', amount = None, stage = None, pipeline = None,
      associated_contact_email = Some ''a@b.com''\<rparr>
     (start [json_response 201 (JObj [(''id'', JStr ''d1'')]),
             json_response 200 (JObj [(''results'', JArr [])])]))
   \<noteq> Inr (JObj [(''id'', JStr ''d1'')])"
  by (simp add: create_deal_miss_run)

subsection \<open>The coordinator\<close>













end
